theory Spec2Isabelle
  imports Main "HOL-Library.Word" "HOL-Library.AList"
begin

unbundle bit_operations_syntax

section \<open>Data model\<close>

text \<open>
  Modelled from the spec: the structures \<^verbatim>\<open>InterfaceInfo\<close>, \<^verbatim>\<open>AddressInfo\<close>,
  \<^verbatim>\<open>NeighborInfo\<close> and \<^verbatim>\<open>AllIntfInfo\<close>, whose declarations (\<^verbatim>\<open>types.hpp\<close>)
  are not among the sources.  The fields are those of the specification's data
  model, under the names \<^verbatim>\<open>network_manager.cpp\<close> uses for them (with a prefix
  where two structures share a name).  \<^verbatim>\<open>unsigned\<close> is a 32-bit word,
  \<^verbatim>\<open>unsigned short\<close> a 16-bit word.  An address of either family is the variant
  \<^verbatim>\<open>stdplus::InAnyAddr\<close>; a subnet (\<^verbatim>\<open>stdplus::SubnetAny\<close>) is an address with
  its prefix length.
\<close>

type_synonym ifindex = "32 word"

datatype InAnyAddr = In4Addr "32 word" | In6Addr "128 word"

type_synonym SubnetAny = "InAnyAddr \<times> 8 word"

record InterfaceInfo =
  intf_type :: "16 word"
  idx :: ifindex
  intf_flags :: "32 word"
  name :: "string option"
  mac :: "48 word option"
  mtu :: "32 word option"
  parent_idx :: "ifindex option"
  kind :: "string option"
  vlan_id :: "16 word option"

record AddressInfo =
  ifidx :: ifindex
  ifaddr :: SubnetAny
  scope :: "8 word"
  flags :: "32 word"

record NeighborInfo =
  neigh_ifidx :: ifindex
  neigh_state :: "16 word"
  neigh_addr :: "InAnyAddr option"
  neigh_mac :: "48 word option"

record AllIntfInfo =
  intf :: InterfaceInfo
  defgw4 :: "32 word option"
  defgw6 :: "128 word option"
  addrs :: "SubnetAny \<rightharpoonup> AddressInfo"
  staticNeighs :: "InAnyAddr \<rightharpoonup> NeighborInfo"

text \<open>
  Modelled from the spec: the per-interface object (\<^verbatim>\<open>EthernetInterface\<close>), whose
  class is not among the sources, reduced to the members the manager reads or
  writes directly: the \<^verbatim>\<open>interfaceName()\<close> property, the
  \<^verbatim>\<open>addrs\<close> and \<^verbatim>\<open>staticNeighbors\<close> maps (here \<open>eth_addrs\<close>, since
  \<open>addrs\<close> is the field of \<open>AllIntfInfo\<close>) and the two default gateway
  string properties.  The objects kept in the two maps are represented by the event
  they were made from.
\<close>

record EthernetInterface =
  interfaceName :: string
  eth_addrs :: "SubnetAny \<rightharpoonup> AddressInfo"
  staticNeighbors :: "InAnyAddr \<rightharpoonup> NeighborInfo"
  defaultGateway :: string
  defaultGateway6 :: string

text \<open>Constants of the Linux headers the source includes.\<close>

definition ARPHRD_ETHER :: "16 word" where
  "ARPHRD_ETHER = 1"

definition IFA_F_DEPRECATED :: "32 word" where
  "IFA_F_DEPRECATED = 0x20"

definition NUD_PERMANENT :: "16 word" where
  "NUD_PERMANENT = 0x80"

subsection \<open>Errors and log lines\<close>

text \<open>
  What leaves a method other than by returning: the \<^verbatim>\<open>std::runtime_error\<close> of
  \<^verbatim>\<open>addAddress\<close> and \<^verbatim>\<open>addNeighbor\<close>, the two D-Bus errors of \<^verbatim>\<open>vlan\<close>,
  the \<^verbatim>\<open>filesystem_error\<close> of a directory that cannot be listed,
  \<^verbatim>\<open>std::abort()\<close>, and the use of a raw pointer whose object was destroyed
  (undefined behaviour in C++, kept apart from every exception here).
\<close>

datatype subject = ForAddr | ForNeigh

datatype error =
    RuntimeError subject ifindex
  | InvalidArgument "32 word"
  | ResourceNotFound string
  | FilesystemError
  | Aborted
  | UseAfterFree

fun is_exception :: "error \<Rightarrow> bool" where
  "is_exception Aborted = False"
| "is_exception UseAfterFree = False"
| "is_exception _ = True"

datatype log_entry =
    CantCreateWithoutName ifindex
  | IgnoringInterface string
  | NotFoundForGw ifindex
  | VlanIdNotValid "32 word"
  | NetworkDataPurged
  | FailedHandlingNetlinkEvent error
  | FailedExecutingReloadHook
  | ReloadedNetworkd
  | FailedToReloadConfiguration

subsection \<open>The manager\<close>

text \<open>
  Modelled from the spec: the members of \<^verbatim>\<open>Manager\<close> (its declaration,
  \<^verbatim>\<open>network_manager.hpp\<close>, is not among the sources), which are the containers
  of the specification's registry under the names the method bodies use.
  \<open>interfaces\<close> owns the objects
  (\<^verbatim>\<open>unique_ptr\<close>): it is kept as an association list from names to addresses of
  the store \<open>objects\<close>, because \<^verbatim>\<open>removeInterface\<close> walks it looking for a
  pointer.  \<open>interfacesByIdx\<close> holds raw pointers into the same store.  Destroying
  an object removes it from the store; \<open>nextObj\<close> is the next fresh address.
  \<open>loggedIgnored\<close> is the function-local static set of \<^verbatim>\<open>addInterface\<close>,
  \<open>confDirEntries\<close> what \<^verbatim>\<open>directory_iterator(confDir)\<close> lists (\<open>None\<close> when the
  directory cannot be opened), and \<open>journal\<close> collects the \<^verbatim>\<open>lg2\<close> lines.
\<close>

record Manager =
  intfInfo :: "ifindex \<rightharpoonup> AllIntfInfo"
  interfaces :: "(string \<times> nat) list"
  interfacesByIdx :: "ifindex \<rightharpoonup> nat"
  ignoredIntf :: "ifindex set"
  systemdNetworkdEnabled :: "ifindex \<rightharpoonup> bool"
  objects :: "nat \<rightharpoonup> EthernetInterface"
  nextObj :: nat
  loggedIgnored :: "string set"
  confDirEntries :: "string list option"
  journal :: "log_entry list"

text \<open>
  A method either returns with the manager in a new state (\<open>Inr\<close>), or is left by
  an error with the manager in the state reached so far (\<open>Inl\<close>).
\<close>

type_synonym outcome = "(error \<times> Manager) + Manager"

text \<open>
  Code outside \<^verbatim>\<open>network_manager.cpp\<close> that the manager calls, taken as
  parameters: the ignore list (\<^verbatim>\<open>internal::getIgnoredInterfaces()\<close>), the
  constructor of \<^verbatim>\<open>EthernetInterface\<close> together with the two \<^verbatim>\<open>load...Servers\<close>
  calls that follow it (it receives the manager, the interface record and the
  enabled flag), the methods \<^verbatim>\<open>updateInfo\<close>, \<^verbatim>\<open>addAddr\<close>, \<^verbatim>\<open>addStaticNeigh\<close>
  and \<^verbatim>\<open>createVLAN\<close> of the object, \<^verbatim>\<open>stdplus::toStr\<close> on addresses, and
  whether \<^verbatim>\<open>std::filesystem::remove\<close> removes a given entry.
\<close>

record Env =
  getIgnoredInterfaces :: "string set"
  newEthernetInterface :: "Manager \<Rightarrow> AllIntfInfo \<Rightarrow> bool \<Rightarrow> EthernetInterface"
  updateInfo :: "InterfaceInfo \<Rightarrow> EthernetInterface \<Rightarrow> EthernetInterface"
  addAddr :: "AddressInfo \<Rightarrow> EthernetInterface \<Rightarrow> EthernetInterface"
  addStaticNeigh :: "NeighborInfo \<Rightarrow> EthernetInterface \<Rightarrow> EthernetInterface"
  createVLAN :: "nat \<Rightarrow> 32 word \<Rightarrow> Manager \<Rightarrow> (error \<times> Manager) + (string \<times> Manager)"
  toStr :: "InAnyAddr \<Rightarrow> string"
  fsRemove :: "string \<Rightarrow> bool"

section \<open>The operations of the registry\<close>

subsection \<open>createInterface\<close>

text \<open>\<^verbatim>\<open>interfaces.erase(key)\<close>: the entry goes and its object is destroyed.\<close>

definition interfaces_erase :: "string \<Rightarrow> Manager \<Rightarrow> Manager" where
  "interfaces_erase n s =
     (case map_of (interfaces s) n of
        None \<Rightarrow> s
      | Some q \<Rightarrow> s\<lparr>interfaces := AList.delete n (interfaces s),
                    objects := (objects s)(q := None)\<rparr>)"

text \<open>
  \<^verbatim>\<open>interfaces.insert_or_assign(key, std::move(intf))\<close>: an object already held
  under the key is destroyed by the assignment.
\<close>

definition interfaces_insert_or_assign :: "string \<Rightarrow> nat \<Rightarrow> Manager \<Rightarrow> Manager" where
  "interfaces_insert_or_assign n p s =
     (case map_of (interfaces s) n of
        None \<Rightarrow> s\<lparr>interfaces := AList.update n p (interfaces s)\<rparr>
      | Some q \<Rightarrow> s\<lparr>interfaces := AList.update n p (interfaces s),
                    objects := (objects s)(q := None)\<rparr>)"

text \<open>
  The tail of \<^verbatim>\<open>createInterface\<close> (from the check for a name to the two
  registrations): a new object at a fresh address, registered by name and by index.
\<close>

definition createInterface_new :: "Env \<Rightarrow> AllIntfInfo \<Rightarrow> bool \<Rightarrow> Manager \<Rightarrow> outcome" where
  "createInterface_new env info enabled s =
     (case name (intf info) of
        None \<Rightarrow> Inr (s\<lparr>journal := journal s @ [CantCreateWithoutName (idx (intf info))]\<rparr>)
      | Some n \<Rightarrow>
          let obj = newEthernetInterface env s info enabled;
              p = nextObj s;
              s1 = s\<lparr>objects := (objects s)(p \<mapsto> obj), nextObj := Suc p\<rparr>;
              s2 = interfaces_insert_or_assign n p s1
          in Inr (s2\<lparr>interfacesByIdx := (interfacesByIdx s2)(idx (intf info) \<mapsto> p)\<rparr>))"

text \<open>\<^verbatim>\<open>ptr->updateInfo(info.intf)\<close> through a pointer into the store.\<close>

definition update_object :: "Env \<Rightarrow> nat \<Rightarrow> InterfaceInfo \<Rightarrow> Manager \<Rightarrow> outcome" where
  "update_object env p i s =
     (case objects s p of
        None \<Rightarrow> Inl (UseAfterFree, s)
      | Some obj \<Rightarrow> Inr (s\<lparr>objects := (objects s)(p \<mapsto> updateInfo env i obj)\<rparr>))"

definition createInterface :: "Env \<Rightarrow> AllIntfInfo \<Rightarrow> bool \<Rightarrow> Manager \<Rightarrow> outcome" where
  "createInterface env info enabled s =
     (if idx (intf info) \<in> ignoredIntf s then Inr s
      else case interfacesByIdx s (idx (intf info)) of
        Some p \<Rightarrow>
          (case objects s p of
             None \<Rightarrow> Inl (UseAfterFree, s)
           | Some obj \<Rightarrow>
               if (case name (intf info) of None \<Rightarrow> False | Some n \<Rightarrow> n \<noteq> interfaceName obj)
               then let s1 = interfaces_erase (interfaceName obj) s;
                        s2 = s1\<lparr>interfacesByIdx := (interfacesByIdx s1)(idx (intf info) := None)\<rparr>
                    in createInterface_new env info enabled s2
               else update_object env p (intf info) s)
      | None \<Rightarrow>
          (case name (intf info) of
             Some n \<Rightarrow>
               (case map_of (interfaces s) n of
                  Some q \<Rightarrow> update_object env q (intf info) s
                | None \<Rightarrow> createInterface_new env info enabled s)
           | None \<Rightarrow> createInterface_new env info enabled s))"

subsection \<open>addInterface and removeInterface\<close>

text \<open>
  The branch of \<^verbatim>\<open>addInterface\<close> taken for a name of the ignore list: the name
  is logged the first time it is seen, the index joins \<open>ignoredIntf\<close>.
\<close>

definition addInterface_ignore_name :: "string \<Rightarrow> ifindex \<Rightarrow> Manager \<Rightarrow> Manager" where
  "addInterface_ignore_name n i s =
     (let s1 = (if n \<in> loggedIgnored s then s
                else s\<lparr>loggedIgnored := insert n (loggedIgnored s),
                       journal := journal s @ [IgnoringInterface n]\<rparr>)
      in s1\<lparr>ignoredIntf := insert i (ignoredIntf s1)\<rparr>)"

text \<open>
  The rest of \<^verbatim>\<open>addInterface\<close>: the record of the index is updated or created,
  and the object is created when the supervisor's opinion of the index is known.
\<close>

definition addInterface_upsert :: "Env \<Rightarrow> InterfaceInfo \<Rightarrow> Manager \<Rightarrow> outcome" where
  "addInterface_upsert env info s =
     (let rec = (case intfInfo s (idx info) of
                   Some old \<Rightarrow> old\<lparr>intf := info\<rparr>
                 | None \<Rightarrow> \<lparr>intf = info, defgw4 = None, defgw6 = None,
                            addrs = Map.empty, staticNeighs = Map.empty\<rparr>);
          s1 = s\<lparr>intfInfo := (intfInfo s)(idx info \<mapsto> rec)\<rparr>
      in case systemdNetworkdEnabled s1 (idx info) of
           Some enabled \<Rightarrow> createInterface env rec enabled s1
         | None \<Rightarrow> Inr s1)"

definition addInterface :: "Env \<Rightarrow> InterfaceInfo \<Rightarrow> Manager \<Rightarrow> outcome" where
  "addInterface env info s =
     (if intf_type info \<noteq> ARPHRD_ETHER
      then Inr (s\<lparr>ignoredIntf := insert (idx info) (ignoredIntf s)\<rparr>)
      else case name info of
        Some n \<Rightarrow>
          if n \<in> getIgnoredInterfaces env
          then Inr (addInterface_ignore_name n (idx info) s)
          else addInterface_upsert env info s
      | None \<Rightarrow> addInterface_upsert env info s)"

text \<open>
  \<^verbatim>\<open>removeInterface\<close>.  \<open>removeInterface_nit\<close> is the iterator \<^verbatim>\<open>nit\<close> after
  the first \<^verbatim>\<open>if\<close>/\<^verbatim>\<open>else if\<close>: the entry found under the name when the event
  has one, otherwise the first entry holding the pointer found by index.
\<close>

definition removeInterface_nit :: "InterfaceInfo \<Rightarrow> Manager \<Rightarrow> (string \<times> nat) option" where
  "removeInterface_nit info s =
     (case name info of
        Some n \<Rightarrow> (case map_of (interfaces s) n of Some q \<Rightarrow> Some (n, q) | None \<Rightarrow> None)
      | None \<Rightarrow>
          (case interfacesByIdx s (idx info) of
             Some p \<Rightarrow> find (\<lambda>e. snd e = p) (interfaces s)
           | None \<Rightarrow> None))"

definition removeInterface_desync :: "InterfaceInfo \<Rightarrow> Manager \<Rightarrow> bool" where
  "removeInterface_desync info s =
     (case name info of
        None \<Rightarrow> False
      | Some n \<Rightarrow>
          (case map_of (interfaces s) n of
             None \<Rightarrow> False
           | Some q \<Rightarrow>
               (case interfacesByIdx s (idx info) of
                  None \<Rightarrow> False
                | Some p \<Rightarrow> q \<noteq> p)))"

definition removeInterface :: "InterfaceInfo \<Rightarrow> Manager \<Rightarrow> outcome" where
  "removeInterface info s =
     (if removeInterface_desync info s then Inl (Aborted, s)
      else
        let nit = removeInterface_nit info s;
            s1 = (case interfacesByIdx s (idx info) of
                    Some p \<Rightarrow> s\<lparr>interfacesByIdx := (interfacesByIdx s)(idx info := None)\<rparr>
                  | None \<Rightarrow> s\<lparr>ignoredIntf := ignoredIntf s - {idx info}\<rparr>);
            s2 = (case nit of
                    Some (n, q) \<Rightarrow> s1\<lparr>interfaces := AList.delete n (interfaces s1),
                                       objects := (objects s1)(q := None)\<rparr>
                  | None \<Rightarrow> s1)
        in Inr (s2\<lparr>intfInfo := (intfInfo s2)(idx info := None)\<rparr>))"

subsection \<open>Addresses and neighbors\<close>

definition addAddress :: "Env \<Rightarrow> AddressInfo \<Rightarrow> Manager \<Rightarrow> outcome" where
  "addAddress env info s =
     (if flags info AND IFA_F_DEPRECATED \<noteq> 0 then Inr s
      else case intfInfo s (ifidx info) of
        Some rec \<Rightarrow>
          let s1 = s\<lparr>intfInfo := (intfInfo s)
                      (ifidx info \<mapsto> rec\<lparr>addrs := (addrs rec)(ifaddr info \<mapsto> info)\<rparr>)\<rparr>
          in (case interfacesByIdx s1 (ifidx info) of
                Some p \<Rightarrow>
                  (case objects s1 p of
                     None \<Rightarrow> Inl (UseAfterFree, s1)
                   | Some obj \<Rightarrow> Inr (s1\<lparr>objects := (objects s1)(p \<mapsto> addAddr env info obj)\<rparr>))
              | None \<Rightarrow> Inr s1)
      | None \<Rightarrow>
          if ifidx info \<in> ignoredIntf s then Inr s
          else Inl (RuntimeError ForAddr (ifidx info), s))"

definition removeAddress :: "AddressInfo \<Rightarrow> Manager \<Rightarrow> outcome" where
  "removeAddress info s =
     (case interfacesByIdx s (ifidx info) of
        Some p \<Rightarrow>
          (case objects s p of
             None \<Rightarrow> Inl (UseAfterFree, s)
           | Some obj \<Rightarrow>
               let s1 = s\<lparr>objects := (objects s)
                           (p \<mapsto> obj\<lparr>eth_addrs := (eth_addrs obj)(ifaddr info := None)\<rparr>)\<rparr>
               in (case intfInfo s1 (ifidx info) of
                     Some rec \<Rightarrow>
                       Inr (s1\<lparr>intfInfo := (intfInfo s1)
                              (ifidx info \<mapsto> rec\<lparr>addrs := (addrs rec)(ifaddr info := None)\<rparr>)\<rparr>)
                   | None \<Rightarrow> Inr s1))
      | None \<Rightarrow> Inr s)"

definition addNeighbor :: "Env \<Rightarrow> NeighborInfo \<Rightarrow> Manager \<Rightarrow> outcome" where
  "addNeighbor env info s =
     (case (if neigh_state info AND NUD_PERMANENT = 0 then None else neigh_addr info) of
        None \<Rightarrow> Inr s
      | Some a \<Rightarrow>
          (case intfInfo s (neigh_ifidx info) of
             Some rec \<Rightarrow>
               let s1 = s\<lparr>intfInfo := (intfInfo s)
                           (neigh_ifidx info \<mapsto> rec\<lparr>staticNeighs := (staticNeighs rec)(a \<mapsto> info)\<rparr>)\<rparr>
               in (case interfacesByIdx s1 (neigh_ifidx info) of
                     Some p \<Rightarrow>
                       (case objects s1 p of
                          None \<Rightarrow> Inl (UseAfterFree, s1)
                        | Some obj \<Rightarrow>
                            Inr (s1\<lparr>objects := (objects s1)(p \<mapsto> addStaticNeigh env info obj)\<rparr>))
                   | None \<Rightarrow> Inr s1)
           | None \<Rightarrow>
               if neigh_ifidx info \<in> ignoredIntf s then Inr s
               else Inl (RuntimeError ForNeigh (neigh_ifidx info), s)))"

definition removeNeighbor :: "NeighborInfo \<Rightarrow> Manager \<Rightarrow> outcome" where
  "removeNeighbor info s =
     (case neigh_addr info of
        None \<Rightarrow> Inr s
      | Some a \<Rightarrow>
          (case intfInfo s (neigh_ifidx info) of
             Some rec \<Rightarrow>
               let s1 = s\<lparr>intfInfo := (intfInfo s)
                           (neigh_ifidx info \<mapsto> rec\<lparr>staticNeighs := (staticNeighs rec)(a := None)\<rparr>)\<rparr>
               in (case interfacesByIdx s1 (neigh_ifidx info) of
                     Some p \<Rightarrow>
                       (case objects s1 p of
                          None \<Rightarrow> Inl (UseAfterFree, s1)
                        | Some obj \<Rightarrow>
                            Inr (s1\<lparr>objects := (objects s1)
                                   (p \<mapsto> obj\<lparr>staticNeighbors := (staticNeighbors obj)(a := None)\<rparr>)\<rparr>))
                   | None \<Rightarrow> Inr s1)
           | None \<Rightarrow> Inr s))"

subsection \<open>Default gateways\<close>

text \<open>The two \<^verbatim>\<open>std::visit\<close> bodies of \<^verbatim>\<open>addDefGw\<close>, one per family.\<close>

definition set_defgw :: "InAnyAddr \<Rightarrow> AllIntfInfo \<Rightarrow> AllIntfInfo" where
  "set_defgw a rec =
     (case a of
        In4Addr a4 \<Rightarrow> rec\<lparr>defgw4 := Some a4\<rparr>
      | In6Addr a6 \<Rightarrow> rec\<lparr>defgw6 := Some a6\<rparr>)"

definition set_defaultGateway :: "Env \<Rightarrow> InAnyAddr \<Rightarrow> EthernetInterface \<Rightarrow> EthernetInterface" where
  "set_defaultGateway env a obj =
     (case a of
        In4Addr a4 \<Rightarrow> obj\<lparr>defaultGateway := toStr env a\<rparr>
      | In6Addr a6 \<Rightarrow> obj\<lparr>defaultGateway6 := toStr env a\<rparr>)"

definition addDefGw :: "Env \<Rightarrow> ifindex \<Rightarrow> InAnyAddr \<Rightarrow> Manager \<Rightarrow> outcome" where
  "addDefGw env i a s =
     (case intfInfo s i of
        Some rec \<Rightarrow>
          let s1 = s\<lparr>intfInfo := (intfInfo s)(i \<mapsto> set_defgw a rec)\<rparr>
          in (case interfacesByIdx s1 i of
                Some p \<Rightarrow>
                  (case objects s1 p of
                     None \<Rightarrow> Inl (UseAfterFree, s1)
                   | Some obj \<Rightarrow>
                       Inr (s1\<lparr>objects := (objects s1)(p \<mapsto> set_defaultGateway env a obj)\<rparr>))
              | None \<Rightarrow> Inr s1)
      | None \<Rightarrow>
          if i \<in> ignoredIntf s then Inr s
          else Inr (s\<lparr>journal := journal s @ [NotFoundForGw i]\<rparr>))"

text \<open>The two \<^verbatim>\<open>std::visit\<close> bodies of \<^verbatim>\<open>removeDefGw\<close>.\<close>

definition reset_defgw :: "InAnyAddr \<Rightarrow> AllIntfInfo \<Rightarrow> AllIntfInfo" where
  "reset_defgw a rec =
     (case a of
        In4Addr a4 \<Rightarrow> if defgw4 rec = Some a4 then rec\<lparr>defgw4 := None\<rparr> else rec
      | In6Addr a6 \<Rightarrow> if defgw6 rec = Some a6 then rec\<lparr>defgw6 := None\<rparr> else rec)"

definition reset_defaultGateway :: "Env \<Rightarrow> InAnyAddr \<Rightarrow> EthernetInterface \<Rightarrow> EthernetInterface" where
  "reset_defaultGateway env a obj =
     (case a of
        In4Addr a4 \<Rightarrow>
          if defaultGateway obj = toStr env a then obj\<lparr>defaultGateway := []\<rparr> else obj
      | In6Addr a6 \<Rightarrow>
          if defaultGateway6 obj = toStr env a then obj\<lparr>defaultGateway6 := []\<rparr> else obj)"

definition removeDefGw :: "Env \<Rightarrow> ifindex \<Rightarrow> InAnyAddr \<Rightarrow> Manager \<Rightarrow> outcome" where
  "removeDefGw env i a s =
     (case intfInfo s i of
        Some rec \<Rightarrow>
          let s1 = s\<lparr>intfInfo := (intfInfo s)(i \<mapsto> reset_defgw a rec)\<rparr>
          in (case interfacesByIdx s1 i of
                Some p \<Rightarrow>
                  (case objects s1 p of
                     None \<Rightarrow> Inl (UseAfterFree, s1)
                   | Some obj \<Rightarrow>
                       Inr (s1\<lparr>objects := (objects s1)(p \<mapsto> reset_defaultGateway env a obj)\<rparr>))
              | None \<Rightarrow> Inr s1)
      | None \<Rightarrow> Inr s)"

subsection \<open>vlan and reset\<close>

definition vlan :: "Env \<Rightarrow> string \<Rightarrow> 32 word \<Rightarrow> Manager \<Rightarrow> (error \<times> Manager) + (string \<times> Manager)" where
  "vlan env ifname vid s =
     (if vid = 0 \<or> 4095 \<le> vid
      then Inl (InvalidArgument vid, s\<lparr>journal := journal s @ [VlanIdNotValid vid]\<rparr>)
      else case map_of (interfaces s) ifname of
        None \<Rightarrow> Inl (ResourceNotFound ifname, s)
      | Some p \<Rightarrow> createVLAN env p vid s)"

text \<open>
  The loop of \<^verbatim>\<open>reset\<close> over the directory: each entry is removed with the
  error code discarded; the result is what the directory still holds afterwards.
\<close>

fun reset_loop :: "(string \<Rightarrow> bool) \<Rightarrow> string list \<Rightarrow> string list" where
  "reset_loop rm [] = []"
| "reset_loop rm (f # fs) = (if rm f then reset_loop rm fs else f # reset_loop rm fs)"

definition reset :: "Env \<Rightarrow> Manager \<Rightarrow> outcome" where
  "reset env s =
     (case confDirEntries s of
        None \<Rightarrow> Inl (FilesystemError, s)
      | Some fs \<Rightarrow>
          Inr (s\<lparr>confDirEntries := Some (reset_loop (fsRemove env) fs),
                 journal := journal s @ [NetworkDataPurged]\<rparr>))"

subsection \<open>handleAdminState\<close>

text \<open>
  The source text of this method holds, around the call of \<^verbatim>\<open>createInterface\<close>,
  an unfinished \<^verbatim>\<open>if (exist config) { ... } else { ... }\<close>: its condition and its
  first branch are not C++ (two undeclared words as a condition, a statement cut
  after \<^verbatim>\<open>tmp.inf\<close>, calls of members that do not exist), so they have no
  behaviour to embed.  The embedding is the \<^verbatim>\<open>else\<close> branch, the one call
  \<^verbatim>\<open>createInterface(it->second, managed)\<close> that both branches spell out.
\<close>

definition handleAdminState :: "Env \<Rightarrow> string \<Rightarrow> ifindex \<Rightarrow> Manager \<Rightarrow> outcome" where
  "handleAdminState env st i s =
     (if st = ''initialized'' \<or> st = ''linger''
      then Inr (s\<lparr>systemdNetworkdEnabled := (systemdNetworkdEnabled s)(i := None)\<rparr>)
      else
        let managed = (st \<noteq> ''unmanaged'');
            s1 = s\<lparr>systemdNetworkdEnabled := (systemdNetworkdEnabled s)(i \<mapsto> managed)\<rparr>
        in case intfInfo s1 i of
             Some rec \<Rightarrow> createInterface env rec managed s1
           | None \<Rightarrow> Inr s1)"

section \<open>The netlink handler\<close>

text \<open>
  The messages \<^verbatim>\<open>handler\<close> of the netlink server dispatches on, already decoded
  (a route message stands for one that \<^verbatim>\<open>gatewayFromRtm\<close> turned into a default
  gateway).
\<close>

datatype nlmsg =
    RTM_NEWLINK InterfaceInfo
  | RTM_DELLINK InterfaceInfo
  | RTM_NEWROUTE ifindex InAnyAddr
  | RTM_DELROUTE ifindex InAnyAddr
  | RTM_NEWADDR AddressInfo
  | RTM_DELADDR AddressInfo
  | RTM_NEWNEIGH NeighborInfo
  | RTM_DELNEIGH NeighborInfo

fun dispatch :: "Env \<Rightarrow> nlmsg \<Rightarrow> Manager \<Rightarrow> outcome" where
  "dispatch env (RTM_NEWLINK info) s = addInterface env info s"
| "dispatch env (RTM_DELLINK info) s = removeInterface info s"
| "dispatch env (RTM_NEWROUTE i a) s = addDefGw env i a s"
| "dispatch env (RTM_DELROUTE i a) s = removeDefGw env i a s"
| "dispatch env (RTM_NEWADDR info) s = addAddress env info s"
| "dispatch env (RTM_DELADDR info) s = removeAddress info s"
| "dispatch env (RTM_NEWNEIGH info) s = addNeighbor env info s"
| "dispatch env (RTM_DELNEIGH info) s = removeNeighbor info s"

text \<open>\<^verbatim>\<open>getIfIdx\<close>: it throws for the route messages (\<open>None\<close>).\<close>

fun getIfIdx :: "nlmsg \<Rightarrow> ifindex option" where
  "getIfIdx (RTM_NEWLINK info) = Some (idx info)"
| "getIfIdx (RTM_DELLINK info) = Some (idx info)"
| "getIfIdx (RTM_NEWADDR info) = Some (ifidx info)"
| "getIfIdx (RTM_DELADDR info) = Some (ifidx info)"
| "getIfIdx (RTM_NEWNEIGH info) = Some (neigh_ifidx info)"
| "getIfIdx (RTM_DELNEIGH info) = Some (neigh_ifidx info)"
| "getIfIdx _ = None"

text \<open>
  \<^verbatim>\<open>handler\<close>: an exception of the dispatched method is caught and logged, unless
  the message is about an ignored index.  \<^verbatim>\<open>std::abort()\<close> and undefined
  behaviour are not exceptions and end the run.
\<close>

definition handler :: "Env \<Rightarrow> nlmsg \<Rightarrow> Manager \<Rightarrow> outcome" where
  "handler env m s =
     (case dispatch env m s of
        Inr s' \<Rightarrow> Inr s'
      | Inl (e, s') \<Rightarrow>
          if is_exception e
          then (if (case getIfIdx m of Some i \<Rightarrow> i \<in> ignoredIntf s' | None \<Rightarrow> False)
                then Inr s'
                else Inr (s'\<lparr>journal := journal s' @ [FailedHandlingNetlinkEvent e]\<rparr>))
          else Inl (e, s'))"

text \<open>
  What reaches the manager from outside: netlink messages, and the supervisor's
  \<^verbatim>\<open>AdministrativeState\<close> property changes.  \<open>run\<close> feeds a sequence of them to
  the manager, in order.
\<close>

datatype input = Netlink nlmsg | AdministrativeState string ifindex

fun step :: "Env \<Rightarrow> input \<Rightarrow> Manager \<Rightarrow> outcome" where
  "step env (Netlink m) s = handler env m s"
| "step env (AdministrativeState st i) s = handleAdminState env st i s"

fun run :: "Env \<Rightarrow> input list \<Rightarrow> Manager \<Rightarrow> outcome" where
  "run env [] s = Inr s"
| "run env (x # xs) s = (case step env x s of Inl e \<Rightarrow> Inl e | Inr s' \<Rightarrow> run env xs s')"

text \<open>
  The manager as its constructor leaves it when the supervisor lists no link: every
  container empty, the configuration directory created.
\<close>

definition Manager_init :: "string list \<Rightarrow> Manager" where
  "Manager_init fs =
     \<lparr>intfInfo = Map.empty, interfaces = [], interfacesByIdx = Map.empty,
      ignoredIntf = {}, systemdNetworkdEnabled = Map.empty, objects = Map.empty,
      nextObj = 0, loggedIgnored = {}, confDirEntries = Some fs, journal = []\<rparr>"

section \<open>The reload callback\<close>

text \<open>
  The callback the constructor hands to the delayed executor, on the part of the
  manager it touches: the two hook lists.  A hook is a \<^verbatim>\<open>void()\<close> closure.  When
  called it acts on the world outside the two lists (type \<open>'w\<close>), it may register
  further hooks with the manager, and it returns, throws an exception derived from
  \<^verbatim>\<open>std::exception\<close> (the one the loops catch), or throws something else.
  The \<^verbatim>\<open>Reload\<close> call on the bus is a parameter: it acts on the world and returns,
  throws the \<^verbatim>\<open>sdbusplus\<close> exception the callback catches, or throws something
  else.

  Modelled from the spec: a hook reaches the two lists only through
  \<^verbatim>\<open>add_pre_hook\<close> and \<^verbatim>\<open>add_post_hook\<close>, which append to their list
  (\<^verbatim>\<open>network_manager.hpp\<close>, which declares the lists and these two members, is not
  among the sources).  So what a hook does to the lists is given by the hooks it
  appends to each.
\<close>

datatype completion = Returned | ThrewCaught | ThrewOther

datatype 'w hook = Hook "'w \<Rightarrow> completion \<times> 'w \<times> 'w hook list \<times> 'w hook list"

fun call_hook :: "'w hook \<Rightarrow> 'w \<Rightarrow> completion \<times> 'w \<times> 'w hook list \<times> 'w hook list" where
  "call_hook (Hook f) w = f w"

record 'w Reloader =
  reloadPreHooks :: "'w hook list"
  reloadPostHooks :: "'w hook list"
  world :: 'w
  reload_journal :: "log_entry list"

text \<open>
  A firing either completes (\<open>Inr\<close>) or is left early (\<open>Inl\<close>, with the state
  reached): by an exception that no \<^verbatim>\<open>catch\<close> of the callback handles, or because
  a hook appended to the very list the running \<^verbatim>\<open>for\<close> loop iterates over, which
  invalidates the loop's iterators (undefined behaviour for a \<^verbatim>\<open>std::vector\<close>).
\<close>

datatype reload_fault = UncaughtException | IteratorInvalidated

type_synonym 'w firing = "(reload_fault \<times> 'w Reloader) + 'w Reloader"

datatype phase = PreHooks | PostHooks

definition register_hooks :: "'w hook list \<Rightarrow> 'w hook list \<Rightarrow> 'w Reloader \<Rightarrow> 'w Reloader" where
  "register_hooks pre post r =
     r\<lparr>reloadPreHooks := reloadPreHooks r @ pre, reloadPostHooks := reloadPostHooks r @ post\<rparr>"

text \<open>
  One \<^verbatim>\<open>for (auto& hook : hooks) try { hook(); } catch (const std::exception&) ...\<close>
  loop, over the hooks still to be called of the list named by the phase.
\<close>

fun run_hooks :: "phase \<Rightarrow> 'w hook list \<Rightarrow> 'w Reloader \<Rightarrow> 'w firing" where
  "run_hooks ph [] r = Inr r"
| "run_hooks ph (h # hs) r =
     (case call_hook h (world r) of
        (c, w, pre, post) \<Rightarrow>
          let r1 = (register_hooks pre post r)\<lparr>world := w\<rparr> in
          if c = ThrewOther then Inl (UncaughtException, r1)
          else if (case ph of PreHooks \<Rightarrow> pre | PostHooks \<Rightarrow> post) \<noteq> []
          then Inl (IteratorInvalidated, r1)
          else run_hooks ph hs
                 (if c = ThrewCaught
                  then r1\<lparr>reload_journal := reload_journal r1 @ [FailedExecutingReloadHook]\<rparr>
                  else r1))"

text \<open>The second loop and the final \<^verbatim>\<open>reloadPostHooks.clear()\<close>.\<close>

definition reloadCallback_post :: "'w Reloader \<Rightarrow> 'w firing" where
  "reloadCallback_post r =
     (case run_hooks PostHooks (reloadPostHooks r) r of
        Inl f \<Rightarrow> Inl f
      | Inr r' \<Rightarrow> Inr (r'\<lparr>reloadPostHooks := []\<rparr>))"

definition reloadCallback :: "('w \<Rightarrow> completion \<times> 'w) \<Rightarrow> 'w Reloader \<Rightarrow> 'w firing" where
  "reloadCallback reloadRPC r =
     (case run_hooks PreHooks (reloadPreHooks r) r of
        Inl f \<Rightarrow> Inl f
      | Inr r1 \<Rightarrow>
          let r2 = r1\<lparr>reloadPreHooks := []\<rparr> in
          (case reloadRPC (world r2) of
             (c, w) \<Rightarrow>
               (case c of
                  ThrewOther \<Rightarrow> Inl (UncaughtException, r2\<lparr>world := w\<rparr>)
                | ThrewCaught \<Rightarrow>
                    reloadCallback_post
                      (r2\<lparr>world := w,
                          reload_journal := reload_journal r2 @ [FailedToReloadConfiguration],
                          reloadPostHooks := []\<rparr>)
                | Returned \<Rightarrow>
                    reloadCallback_post
                      (r2\<lparr>world := w,
                          reload_journal := reload_journal r2 @ [ReloadedNetworkd]\<rparr>))))"

section \<open>Notions the properties are stated with\<close>

text \<open>
  The state an outcome leaves the manager in, and whether the outcome is a C++
  exception (as opposed to a return, an abort or undefined behaviour).
\<close>

definition result_state :: "outcome \<Rightarrow> Manager" where
  "result_state r = (case r of Inl (e, s) \<Rightarrow> s | Inr s \<Rightarrow> s)"

definition raises :: "outcome \<Rightarrow> bool" where
  "raises r = (case r of Inl (e, s) \<Rightarrow> is_exception e | Inr s \<Rightarrow> False)"

text \<open>
  The in-memory registry: the five containers of the manager and the store of the
  objects they point to.
\<close>

definition registry ::
  "Manager \<Rightarrow> (ifindex \<rightharpoonup> AllIntfInfo) \<times> (string \<times> nat) list \<times> (ifindex \<rightharpoonup> nat) \<times>
     ifindex set \<times> (ifindex \<rightharpoonup> bool) \<times> (nat \<rightharpoonup> EthernetInterface)" where
  "registry s =
     (intfInfo s, interfaces s, interfacesByIdx s, ignoredIntf s,
      systemdNetworkdEnabled s, objects s)"

text \<open>The registry invariant of the specification.\<close>

definition ignored_disjoint :: "Manager \<Rightarrow> bool" where
  "ignored_disjoint s = (ignoredIntf s \<inter> dom (intfInfo s) = {})"

text \<open>The two filters of \<^verbatim>\<open>addInterface\<close>: the type, then the name.\<close>

definition addInterface_ignores :: "Env \<Rightarrow> InterfaceInfo \<Rightarrow> bool" where
  "addInterface_ignores env info =
     (if intf_type info \<noteq> ARPHRD_ETHER then True
      else case name info of Some n \<Rightarrow> n \<in> getIgnoredInterfaces env | None \<Rightarrow> False)"

text \<open>
  The indices that the \<^verbatim>\<open>RTM_NEWLINK\<close> messages of a sequence of inputs report with
  an event that \<^verbatim>\<open>addInterface\<close> filters (\<open>True\<close>), and with one that it admits
  (\<open>False\<close>).
\<close>

fun newlink_indices :: "Env \<Rightarrow> bool \<Rightarrow> input list \<Rightarrow> ifindex set" where
  "newlink_indices env b [] = {}"
| "newlink_indices env b (Netlink (RTM_NEWLINK info) # xs) =
     (if addInterface_ignores env info = b
      then insert (idx info) (newlink_indices env b xs)
      else newlink_indices env b xs)"
| "newlink_indices env b (x # xs) = newlink_indices env b xs"

text \<open>The addresses and gateways recorded for an index, empty when it has no record.\<close>

definition stored_addrs :: "Manager \<Rightarrow> ifindex \<Rightarrow> SubnetAny \<rightharpoonup> AddressInfo" where
  "stored_addrs s i = (case intfInfo s i of Some rec \<Rightarrow> addrs rec | None \<Rightarrow> Map.empty)"

definition stored_neighs :: "Manager \<Rightarrow> ifindex \<Rightarrow> InAnyAddr \<rightharpoonup> NeighborInfo" where
  "stored_neighs s i = (case intfInfo s i of Some rec \<Rightarrow> staticNeighs rec | None \<Rightarrow> Map.empty)"

text \<open>
  The per-interface object of an index, when one exists: the index is bound in
  \<open>interfacesByIdx\<close> and the pointer leads to a live object.
\<close>

definition object_of :: "Manager \<Rightarrow> ifindex \<Rightarrow> EthernetInterface option" where
  "object_of s i = (case interfacesByIdx s i of Some p \<Rightarrow> objects s p | None \<Rightarrow> None)"

text \<open>No pointer of \<open>interfacesByIdx\<close> for the index outlives its object.\<close>

definition not_dangling :: "Manager \<Rightarrow> ifindex \<Rightarrow> bool" where
  "not_dangling s i =
     (case interfacesByIdx s i of Some p \<Rightarrow> objects s p \<noteq> None | None \<Rightarrow> True)"

subsection \<open>The state machine of the specification\<close>

text \<open>
  The table of the specification for \<^verbatim>\<open>handleAdminState\<close>, row by row, to be
  compared with the method.
\<close>

definition forget_state :: "ifindex \<Rightarrow> Manager \<Rightarrow> outcome" where
  "forget_state i s =
     Inr (s\<lparr>systemdNetworkdEnabled := (systemdNetworkdEnabled s)(i := None)\<rparr>)"

definition record_state :: "Env \<Rightarrow> bool \<Rightarrow> ifindex \<Rightarrow> Manager \<Rightarrow> outcome" where
  "record_state env managed i s =
     (let s1 = s\<lparr>systemdNetworkdEnabled := (systemdNetworkdEnabled s)(i \<mapsto> managed)\<rparr>
      in case intfInfo s i of
           None \<Rightarrow> Inr s1
         | Some rec \<Rightarrow> createInterface env rec managed s1)"

definition admin_state_machine :: "Env \<Rightarrow> string \<Rightarrow> ifindex \<Rightarrow> Manager \<Rightarrow> outcome" where
  "admin_state_machine env st i s =
     (if st = ''initialized'' then forget_state i s
      else if st = ''linger'' then forget_state i s
      else if st = ''unmanaged'' then record_state env False i s
      else record_state env True i s)"

subsection \<open>The firing of the specification\<close>

text \<open>
  What running a list of hooks in order means: each hook is called on the world its
  predecessor left, whether or not any of them failed (\<open>hooks_effect\<close>); each
  failure leaves one line in the log (\<open>hooks_failures\<close>); the hooks they register
  into the other list are appended to it in the order of registration
  (\<open>hooks_registered\<close>).  \<open>hooks_quiet\<close> says that no hook of the run throws
  anything but a \<^verbatim>\<open>std::exception\<close> or registers a hook into the list that is
  being run.
\<close>

fun hooks_effect :: "'w hook list \<Rightarrow> 'w \<Rightarrow> 'w" where
  "hooks_effect [] w = w"
| "hooks_effect (h # hs) w = hooks_effect hs (fst (snd (call_hook h w)))"

fun hooks_failures :: "'w hook list \<Rightarrow> 'w \<Rightarrow> log_entry list" where
  "hooks_failures [] w = []"
| "hooks_failures (h # hs) w =
     (if fst (call_hook h w) = ThrewCaught then [FailedExecutingReloadHook] else []) @
     hooks_failures hs (fst (snd (call_hook h w)))"

fun registered_pre :: "'w hook list \<Rightarrow> 'w \<Rightarrow> 'w hook list" where
  "registered_pre [] w = []"
| "registered_pre (h # hs) w =
     fst (snd (snd (call_hook h w))) @ registered_pre hs (fst (snd (call_hook h w)))"

fun registered_post :: "'w hook list \<Rightarrow> 'w \<Rightarrow> 'w hook list" where
  "registered_post [] w = []"
| "registered_post (h # hs) w =
     snd (snd (snd (call_hook h w))) @ registered_post hs (fst (snd (call_hook h w)))"

definition hooks_registered :: "phase \<Rightarrow> 'w hook list \<Rightarrow> 'w \<Rightarrow> 'w hook list" where
  "hooks_registered ph hs w =
     (case ph of PreHooks \<Rightarrow> registered_post hs w | PostHooks \<Rightarrow> registered_pre hs w)"

fun hooks_quiet :: "phase \<Rightarrow> 'w hook list \<Rightarrow> 'w \<Rightarrow> bool" where
  "hooks_quiet ph [] w = True"
| "hooks_quiet ph (h # hs) w =
     (case call_hook h w of
        (c, w', pre, post) \<Rightarrow>
          c \<noteq> ThrewOther \<and> (case ph of PreHooks \<Rightarrow> pre | PostHooks \<Rightarrow> post) = [] \<and>
          hooks_quiet ph hs w')"

text \<open>The state a firing leaves the two lists, the world and the journal in.\<close>

definition firing_state :: "'w firing \<Rightarrow> 'w Reloader" where
  "firing_state f = (case f of Inl (e, r) \<Rightarrow> r | Inr r \<Rightarrow> r)"

section \<open>Example inputs\<close>

text \<open>
  A concrete environment for evaluating the model: \<open>usb0\<close> is on the ignore list;
  a new object takes its name, addresses, neighbors and gateways from the record it
  is built from; \<^verbatim>\<open>addAddr\<close> and \<^verbatim>\<open>addStaticNeigh\<close> store under the key;
  \<^verbatim>\<open>createVLAN\<close> answers with a path; \<^verbatim>\<open>toStr\<close> is a table for the addresses of
  the examples; one file of the directory cannot be removed.
\<close>

definition example_toStr :: "InAnyAddr \<Rightarrow> string" where
  "example_toStr a =
     (case a of
        In4Addr w \<Rightarrow> (if w = 0xC0A80101 then ''192.168.1.1''
                      else if w = 0xC0A801FE then ''192.168.1.254'' else ''0.0.0.0'')
      | In6Addr w \<Rightarrow> (if w = 1 then ''::1'' else ''::''))"

definition example_env :: Env where
  "example_env =
     \<lparr>getIgnoredInterfaces = {''usb0''},
      newEthernetInterface = (\<lambda>s info enabled.
         \<lparr>interfaceName = (case name (intf info) of Some n \<Rightarrow> n | None \<Rightarrow> []),
          eth_addrs = addrs info,
          staticNeighbors = staticNeighs info,
          defaultGateway = (case defgw4 info of Some a \<Rightarrow> example_toStr (In4Addr a) | None \<Rightarrow> []),
          defaultGateway6 = (case defgw6 info of Some a \<Rightarrow> example_toStr (In6Addr a) | None \<Rightarrow> [])\<rparr>),
      updateInfo = (\<lambda>i obj. obj),
      addAddr = (\<lambda>info obj. obj\<lparr>eth_addrs := (eth_addrs obj)(ifaddr info \<mapsto> info)\<rparr>),
      addStaticNeigh = (\<lambda>info obj.
         case neigh_addr info of
           Some a \<Rightarrow> obj\<lparr>staticNeighbors := (staticNeighbors obj)(a \<mapsto> info)\<rparr>
         | None \<Rightarrow> obj),
      createVLAN = (\<lambda>p vid s. Inr (''/xyz/openbmc_project/network/vlan'', s)),
      toStr = example_toStr,
      fsRemove = (\<lambda>f. f \<noteq> ''busy.network'')\<rparr>"

text \<open>Link 2 under the names \<open>eth0\<close> and \<open>usb0\<close>, an address and a neighbor on it.\<close>

definition eth0_link :: InterfaceInfo where
  "eth0_link =
     \<lparr>intf_type = 1, idx = 2, intf_flags = 0, name = Some ''eth0'', mac = None,
      mtu = None, parent_idx = None, kind = None, vlan_id = None\<rparr>"

definition usb0_link :: InterfaceInfo where
  "usb0_link = eth0_link\<lparr>name := Some ''usb0''\<rparr>"

definition example_addr :: AddressInfo where
  "example_addr = \<lparr>ifidx = 2, ifaddr = (In4Addr 0xC0A80105, 24), scope = 0, flags = 0x80\<rparr>"

definition deprecated_addr :: AddressInfo where
  "deprecated_addr = example_addr\<lparr>ifidx := 7, flags := 0x20\<rparr>"

definition example_neigh :: NeighborInfo where
  "example_neigh =
     \<lparr>neigh_ifidx = 2, neigh_state = 0x80, neigh_addr = Some (In4Addr 0xC0A80101),
      neigh_mac = None\<rparr>"

text \<open>Link 2 known to the registry, without and with its object.\<close>

definition latent_state :: Manager where
  "latent_state = result_state (run example_env [Netlink (RTM_NEWLINK eth0_link)] (Manager_init []))"

definition managed_state :: Manager where
  "managed_state =
     result_state (run example_env
       [AdministrativeState ''configured'' 2, Netlink (RTM_NEWLINK eth0_link)] (Manager_init []))"

text \<open>
  Link 2 with its object, then renamed to the ignored \<open>usb0\<close> and back; link 2
  seen only as \<open>usb0\<close>; links 2 and 3 both with their objects.
\<close>

definition renamed_state :: Manager where
  "renamed_state =
     result_state (run example_env
       [AdministrativeState ''configured'' 2, Netlink (RTM_NEWLINK eth0_link),
        Netlink (RTM_NEWLINK usb0_link), Netlink (RTM_NEWLINK eth0_link)] (Manager_init []))"

definition ignored_state :: Manager where
  "ignored_state =
     result_state (run example_env [Netlink (RTM_NEWLINK usb0_link)] (Manager_init []))"

definition eth1_link :: InterfaceInfo where
  "eth1_link = eth0_link\<lparr>idx := 3, name := Some ''eth1''\<rparr>"

definition two_links_state :: Manager where
  "two_links_state =
     result_state (run example_env
       [AdministrativeState ''configured'' 2, AdministrativeState ''unmanaged'' 3,
        Netlink (RTM_NEWLINK eth0_link), Netlink (RTM_NEWLINK eth1_link)] (Manager_init []))"

text \<open>
  Hooks for the reload callback whose world is the list of the names of what ran: a
  hook appends its name, completes as told and registers the hooks given.  The
  \<^verbatim>\<open>Reload\<close> call of the examples appends its name too.
\<close>

definition named_hook ::
  "string \<Rightarrow> completion \<Rightarrow> string list hook list \<Rightarrow> string list hook list \<Rightarrow> string list hook" where
  "named_hook n c pre post = Hook (\<lambda>w. (c, w @ [n], pre, post))"

definition example_rpc :: "completion \<Rightarrow> string list \<Rightarrow> completion \<times> string list" where
  "example_rpc c w = (c, w @ [''Reload''])"

definition example_reloader :: "string list Reloader" where
  "example_reloader =
     \<lparr>reloadPreHooks =
        [named_hook ''pre1'' ThrewCaught [] [],
         named_hook ''pre2'' Returned [] [named_hook ''post3'' Returned [] []]],
      reloadPostHooks =
        [named_hook ''post1'' ThrewCaught [] [], named_hook ''post2'' Returned [] []],
      world = [], reload_journal = []\<rparr>"

text \<open>A post-hook that registers a pre-hook for the next firing.\<close>

definition registering_reloader :: "string list Reloader" where
  "registering_reloader =
     \<lparr>reloadPreHooks = [named_hook ''pre1'' Returned [] []],
      reloadPostHooks =
        [named_hook ''post1'' Returned [named_hook ''next'' Returned [] []] []],
      world = [], reload_journal = []\<rparr>"

text \<open>
  An address with the \<open>DEPRECATED\<close> flag and a neighbor that is not permanent, both
  for index 7, and the registry after link 2 was reported as \<open>eth0\<close> and then as
  the ignored \<open>usb0\<close>.
\<close>

definition reachable_neigh :: NeighborInfo where
  "reachable_neigh = example_neigh\<lparr>neigh_ifidx := 7, neigh_state := 0x02\<rparr>"

definition overlap_state :: Manager where
  "overlap_state =
     result_state (run example_env
       [Netlink (RTM_NEWLINK eth0_link), Netlink (RTM_NEWLINK usb0_link)] (Manager_init []))"

section \<open>Properties\<close>

lemmas example_defs =
  Manager_init_def example_env_def example_toStr_def eth0_link_def usb0_link_def
  example_addr_def deprecated_addr_def example_neigh_def
  ARPHRD_ETHER_def IFA_F_DEPRECATED_def NUD_PERMANENT_def

lemmas fixture_defs =
  latent_state_def managed_state_def renamed_state_def two_links_state_def
  ignored_state_def eth1_link_def

lemmas method_defs =
  addInterface_def addInterface_upsert_def addInterface_ignore_name_def
  createInterface_def createInterface_new_def update_object_def interfaces_erase_def
  interfaces_insert_or_assign_def removeInterface_def removeInterface_nit_def
  removeInterface_desync_def addAddress_def removeAddress_def addNeighbor_def
  removeNeighbor_def addDefGw_def removeDefGw_def set_defgw_def set_defaultGateway_def
  reset_defgw_def reset_defaultGateway_def handleAdminState_def handler_def

subsection \<open>What createInterface leaves alone\<close>

lemma createInterface_new_frame:
  "intfInfo (result_state (createInterface_new env info en s)) = intfInfo s \<and>
   ignoredIntf (result_state (createInterface_new env info en s)) = ignoredIntf s \<and>
   systemdNetworkdEnabled (result_state (createInterface_new env info en s)) =
     systemdNetworkdEnabled s"
  by (simp add: createInterface_new_def interfaces_insert_or_assign_def result_state_def Let_def
      split: option.splits)

lemma update_object_frame:
  "intfInfo (result_state (update_object env p i s)) = intfInfo s \<and>
   ignoredIntf (result_state (update_object env p i s)) = ignoredIntf s \<and>
   systemdNetworkdEnabled (result_state (update_object env p i s)) = systemdNetworkdEnabled s"
  by (simp add: update_object_def result_state_def split: option.splits)

lemma interfaces_erase_frame:
  "intfInfo (interfaces_erase n s) = intfInfo s \<and>
   ignoredIntf (interfaces_erase n s) = ignoredIntf s \<and>
   systemdNetworkdEnabled (interfaces_erase n s) = systemdNetworkdEnabled s"
  by (simp add: interfaces_erase_def split: option.splits)

lemma createInterface_frame:
  "intfInfo (result_state (createInterface env info en s)) = intfInfo s \<and>
   ignoredIntf (result_state (createInterface env info en s)) = ignoredIntf s \<and>
   systemdNetworkdEnabled (result_state (createInterface env info en s)) =
     systemdNetworkdEnabled s"
  unfolding createInterface_def
  by (simp add: createInterface_new_frame update_object_frame interfaces_erase_frame Let_def
      split: option.splits) (simp add: result_state_def)

subsection \<open>addInterface and the two collections of indices\<close>

lemma addInterface_upsert_frame:
  "ignoredIntf (result_state (addInterface_upsert env info s)) = ignoredIntf s \<and>
   intfInfo (result_state (addInterface_upsert env info s)) =
     (intfInfo s)(idx info \<mapsto>
        (case intfInfo s (idx info) of
           Some old \<Rightarrow> old\<lparr>intf := info\<rparr>
         | None \<Rightarrow> \<lparr>intf = info, defgw4 = None, defgw6 = None,
                    addrs = Map.empty, staticNeighs = Map.empty\<rparr>))"
  unfolding addInterface_upsert_def
  by (simp add: createInterface_frame Let_def split: option.splits) (simp add: result_state_def)

lemma addInterface_ignored:
  "addInterface_ignores env info \<Longrightarrow>
   ignoredIntf (result_state (addInterface env info s)) = insert (idx info) (ignoredIntf s) \<and>
   intfInfo (result_state (addInterface env info s)) = intfInfo s"
  by (auto simp: addInterface_ignores_def addInterface_def addInterface_ignore_name_def
      result_state_def Let_def split: option.splits if_splits)

lemma addInterface_admitted:
  "\<not> addInterface_ignores env info \<Longrightarrow>
   addInterface env info s = addInterface_upsert env info s"
  by (auto simp: addInterface_ignores_def addInterface_def split: option.splits if_splits)

lemma other_methods_frame:
  "ignoredIntf (result_state (removeInterface li s)) \<subseteq> ignoredIntf s \<and>
   dom (intfInfo (result_state (removeInterface li s))) \<subseteq> dom (intfInfo s)"
  "ignoredIntf (result_state (addAddress env ai s)) = ignoredIntf s \<and>
   dom (intfInfo (result_state (addAddress env ai s))) = dom (intfInfo s)"
  "ignoredIntf (result_state (removeAddress ai s)) = ignoredIntf s \<and>
   dom (intfInfo (result_state (removeAddress ai s))) = dom (intfInfo s)"
  "ignoredIntf (result_state (addNeighbor env ni s)) = ignoredIntf s \<and>
   dom (intfInfo (result_state (addNeighbor env ni s))) = dom (intfInfo s)"
  "ignoredIntf (result_state (removeNeighbor ni s)) = ignoredIntf s \<and>
   dom (intfInfo (result_state (removeNeighbor ni s))) = dom (intfInfo s)"
  "ignoredIntf (result_state (addDefGw env i a s)) = ignoredIntf s \<and>
   dom (intfInfo (result_state (addDefGw env i a s))) = dom (intfInfo s)"
  "ignoredIntf (result_state (removeDefGw env i a s)) = ignoredIntf s \<and>
   dom (intfInfo (result_state (removeDefGw env i a s))) = dom (intfInfo s)"
  by (auto simp: removeInterface_def addAddress_def removeAddress_def addNeighbor_def
      removeNeighbor_def addDefGw_def removeDefGw_def result_state_def Let_def
      split: option.splits if_splits prod.splits)

lemma handleAdminState_frame:
  "ignoredIntf (result_state (handleAdminState env st i s)) = ignoredIntf s \<and>
   intfInfo (result_state (handleAdminState env st i s)) = intfInfo s"
  unfolding handleAdminState_def
  by (simp add: createInterface_frame Let_def split: option.splits) (simp add: result_state_def)

lemma handler_result_state:
  "ignoredIntf (result_state (handler env m s)) = ignoredIntf (result_state (dispatch env m s)) \<and>
   intfInfo (result_state (handler env m s)) = intfInfo (result_state (dispatch env m s))"
  by (simp add: handler_def result_state_def split: sum.splits prod.splits)

lemma addInterface_frame:
  "ignoredIntf (result_state (addInterface env info s)) =
     (if addInterface_ignores env info then insert (idx info) (ignoredIntf s) else ignoredIntf s) \<and>
   dom (intfInfo (result_state (addInterface env info s))) =
     (if addInterface_ignores env info then dom (intfInfo s) else insert (idx info) (dom (intfInfo s)))"
proof (cases "addInterface_ignores env info")
  case True
  then show ?thesis using addInterface_ignored [OF True, of s] by simp
next
  case False
  then show ?thesis
    using addInterface_admitted [OF False, of s] addInterface_upsert_frame [of env info s]
    by simp
qed

lemma step_frame:
  "ignoredIntf (result_state (step env x s)) \<subseteq> ignoredIntf s \<union> newlink_indices env True [x] \<and>
   dom (intfInfo (result_state (step env x s))) \<subseteq> dom (intfInfo s) \<union> newlink_indices env False [x]"
proof (cases x)
  case (Netlink m)
  show ?thesis
  proof (cases m)
    case (RTM_NEWLINK info)
    with Netlink show ?thesis
      using addInterface_frame [of env info s] by (simp add: handler_result_state)
  next
    case (RTM_DELLINK info)
    with Netlink show ?thesis
      using other_methods_frame(1) [of info s] by (simp add: handler_result_state)
  qed (use Netlink in \<open>simp_all add: handler_result_state other_methods_frame\<close>)
next
  case (AdministrativeState st i)
  then show ?thesis by (simp add: handleAdminState_frame)
qed

lemma newlink_indices_Cons:
  "newlink_indices env b (x # xs) = newlink_indices env b [x] \<union> newlink_indices env b xs"
  by (cases "(env, b, x # xs)" rule: newlink_indices.cases) auto

lemma run_frame:
  "ignoredIntf (result_state (run env xs s)) \<subseteq> ignoredIntf s \<union> newlink_indices env True xs \<and>
   dom (intfInfo (result_state (run env xs s))) \<subseteq> dom (intfInfo s) \<union> newlink_indices env False xs"
proof (induction xs arbitrary: s)
  case Nil
  show ?case by (simp add: result_state_def)
next
  case (Cons x xs)
  let ?t = "result_state (step env x s)"
  have st: "ignoredIntf ?t \<subseteq> ignoredIntf s \<union> newlink_indices env True [x]"
    "dom (intfInfo ?t) \<subseteq> dom (intfInfo s) \<union> newlink_indices env False [x]"
    using step_frame [of env x s] by simp_all
  show ?case
  proof (cases "step env x s")
    case (Inl e)
    then have eq: "result_state (run env (x # xs) s) = ?t" by simp
    from st show ?thesis
      unfolding eq newlink_indices_Cons [of env _ x xs] by blast
  next
    case (Inr s')
    then have eq: "result_state (run env (x # xs) s) = result_state (run env xs ?t)"
      by (simp add: result_state_def)
    have ih: "ignoredIntf (result_state (run env xs ?t)) \<subseteq>
                ignoredIntf ?t \<union> newlink_indices env True xs"
      "dom (intfInfo (result_state (run env xs ?t))) \<subseteq>
                dom (intfInfo ?t) \<union> newlink_indices env False xs"
      using Cons.IH [of ?t] by simp_all
    from st ih show ?thesis
      unfolding eq newlink_indices_Cons [of env _ x xs] by blast
  qed
qed

text \<open>
  Claim C1, as it stands, fails.  Link 2 is first reported as \<open>eth0\<close> and recorded
  in \<open>intfInfo\<close>; it is then reported again under the name \<open>usb0\<close>, which is on
  the ignore list, and joins \<open>ignoredIntf\<close> while its record stays: after the two
  messages index 2 is in both collections.
\<close>

theorem ignored_disjoint_counterexample:
  "\<not> isl (run example_env
            [Netlink (RTM_NEWLINK eth0_link), Netlink (RTM_NEWLINK usb0_link)] (Manager_init []))
   \<and> 2 \<in> ignoredIntf (result_state (run example_env
            [Netlink (RTM_NEWLINK eth0_link), Netlink (RTM_NEWLINK usb0_link)] (Manager_init [])))
   \<and> 2 \<in> dom (intfInfo (result_state (run example_env
            [Netlink (RTM_NEWLINK eth0_link), Netlink (RTM_NEWLINK usb0_link)] (Manager_init []))))
   \<and> \<not> ignored_disjoint (result_state (run example_env
            [Netlink (RTM_NEWLINK eth0_link), Netlink (RTM_NEWLINK usb0_link)] (Manager_init [])))"
  by (simp add: method_defs example_defs result_state_def ignored_disjoint_def)

text \<open>
  Claim C1, amended.  A call of \<^verbatim>\<open>addInterface\<close> changes exactly one of the two
  collections: when the event is filtered (a type other than \<open>ETHER\<close>, or a name
  of the ignore list) the index is inserted into \<open>ignoredIntf\<close> and \<open>intfInfo\<close>
  stays as it is; otherwise the record of the index is written and \<open>ignoredIntf\<close>
  stays as it is.  The index is never taken out of the other collection, so a call
  made in a state where the two are disjoint leaves them disjoint exactly when the
  index was not already in the other one.  Hence the two collections are disjoint in
  every state the constructed manager reaches through netlink messages and
  supervisor state changes among which no index is reported both by a filtered and
  by an admitted \<^verbatim>\<open>RTM_NEWLINK\<close>.
\<close>

theorem addInterface_ignores_or_upserts:
  "(\<forall>info s.
      (addInterface_ignores env info \<longrightarrow>
         ignoredIntf (result_state (addInterface env info s)) =
           insert (idx info) (ignoredIntf s) \<and>
         intfInfo (result_state (addInterface env info s)) = intfInfo s) \<and>
      (\<not> addInterface_ignores env info \<longrightarrow>
         ignoredIntf (result_state (addInterface env info s)) = ignoredIntf s \<and>
         dom (intfInfo (result_state (addInterface env info s))) =
           insert (idx info) (dom (intfInfo s)) \<and>
         map_option intf (intfInfo (result_state (addInterface env info s)) (idx info)) =
           Some info) \<and>
      (ignored_disjoint s \<longrightarrow>
         ignored_disjoint (result_state (addInterface env info s)) =
           (if addInterface_ignores env info then idx info \<notin> dom (intfInfo s)
            else idx info \<notin> ignoredIntf s))) \<and>
   (\<forall>xs fs.
      newlink_indices env True xs \<inter> newlink_indices env False xs = {} \<longrightarrow>
      ignored_disjoint (result_state (run env xs (Manager_init fs))))"
proof (intro conjI allI impI)
  fix info s
  assume "addInterface_ignores env info"
  from addInterface_ignored [OF this, of s]
  show "ignoredIntf (result_state (addInterface env info s)) = insert (idx info) (ignoredIntf s)"
    and "intfInfo (result_state (addInterface env info s)) = intfInfo s"
    by simp_all
next
  fix info s
  assume f: "\<not> addInterface_ignores env info"
  show "ignoredIntf (result_state (addInterface env info s)) = ignoredIntf s"
    and "dom (intfInfo (result_state (addInterface env info s))) =
           insert (idx info) (dom (intfInfo s))"
    using addInterface_frame [of env info s] f by simp_all
  show "map_option intf (intfInfo (result_state (addInterface env info s)) (idx info)) =
           Some info"
    using addInterface_admitted [OF f, of s] addInterface_upsert_frame [of env info s]
    by (simp split: option.splits)
next
  fix info s
  assume "ignored_disjoint s"
  then show "ignored_disjoint (result_state (addInterface env info s)) =
           (if addInterface_ignores env info then idx info \<notin> dom (intfInfo s)
            else idx info \<notin> ignoredIntf s)"
    using addInterface_frame [of env info s] by (auto simp: ignored_disjoint_def)
next
  fix xs fs
  assume "newlink_indices env True xs \<inter> newlink_indices env False xs = {}"
  then show "ignored_disjoint (result_state (run env xs (Manager_init fs)))"
    using run_frame [of env xs "Manager_init fs"]
    by (auto simp: ignored_disjoint_def Manager_init_def)
qed

theorem addInterface_ignores_or_upserts_witness:
  "addInterface_ignores example_env usb0_link \<and>
   \<not> addInterface_ignores example_env eth1_link \<and>
   ignored_disjoint (Manager_init []) \<and>
   ignoredIntf (result_state (addInterface example_env usb0_link (Manager_init []))) = {2} \<and>
   intfInfo (result_state (addInterface example_env usb0_link (Manager_init []))) 2 = None \<and>
   ignored_disjoint (result_state (addInterface example_env usb0_link (Manager_init []))) \<and>
   ignoredIntf (result_state (addInterface example_env eth1_link (Manager_init []))) = {} \<and>
   dom (intfInfo (result_state (addInterface example_env eth1_link (Manager_init [])))) = {3} \<and>
   ignored_disjoint (result_state (addInterface example_env eth1_link (Manager_init []))) \<and>
   newlink_indices example_env True
     [Netlink (RTM_NEWLINK usb0_link), AdministrativeState ''configured'' 3,
      Netlink (RTM_NEWLINK eth1_link), Netlink (RTM_DELLINK usb0_link)] = {2} \<and>
   newlink_indices example_env False
     [Netlink (RTM_NEWLINK usb0_link), AdministrativeState ''configured'' 3,
      Netlink (RTM_NEWLINK eth1_link), Netlink (RTM_DELLINK usb0_link)] = {3} \<and>
   ignored_disjoint (result_state (run example_env
     [Netlink (RTM_NEWLINK usb0_link), AdministrativeState ''configured'' 3,
      Netlink (RTM_NEWLINK eth1_link), Netlink (RTM_DELLINK usb0_link)] (Manager_init [])))"
proof -
  let ?xs = "[Netlink (RTM_NEWLINK usb0_link), AdministrativeState ''configured'' 3,
      Netlink (RTM_NEWLINK eth1_link), Netlink (RTM_DELLINK usb0_link)]"
  have a: "addInterface_ignores example_env usb0_link"
    by (simp add: addInterface_ignores_def example_defs)
  have b: "\<not> addInterface_ignores example_env eth1_link"
    by (simp add: addInterface_ignores_def eth1_link_def example_defs)
  have c: "ignored_disjoint (Manager_init [])"
    by (simp add: ignored_disjoint_def Manager_init_def)
  have d: "intfInfo (Manager_init []) = Map.empty" "ignoredIntf (Manager_init []) = {}"
    "idx usb0_link = 2" "idx eth1_link = 3"
    by (simp_all add: eth1_link_def example_defs)
  have e: "newlink_indices example_env True ?xs = {2}"
    "newlink_indices example_env False ?xs = {3}"
    using a b d by simp_all
  note T = addInterface_ignores_or_upserts [of example_env]
  from T [THEN conjunct1, rule_format, of usb0_link "Manager_init []"] a c d
  have 1: "ignoredIntf (result_state (addInterface example_env usb0_link (Manager_init []))) = {2}"
    "intfInfo (result_state (addInterface example_env usb0_link (Manager_init []))) 2 = None"
    "ignored_disjoint (result_state (addInterface example_env usb0_link (Manager_init [])))"
    by simp_all
  from T [THEN conjunct1, rule_format, of eth1_link "Manager_init []"] b c d
  have 2: "ignoredIntf (result_state (addInterface example_env eth1_link (Manager_init []))) = {}"
    "dom (intfInfo (result_state (addInterface example_env eth1_link (Manager_init [])))) = {3}"
    "ignored_disjoint (result_state (addInterface example_env eth1_link (Manager_init [])))"
    by simp_all
  have "newlink_indices example_env True ?xs \<inter> newlink_indices example_env False ?xs = {}"
    unfolding e by simp
  with T [THEN conjunct2, rule_format, of ?xs "[]"]
  have 3: "ignored_disjoint (result_state (run example_env ?xs (Manager_init [])))"
    by blast
  from a b c 1 2 3 e show ?thesis by blast
qed

subsection \<open>handleAdminState\<close>

text \<open>
  Claim C2.  \<^verbatim>\<open>handleAdminState\<close> is the state machine of the specification:
  \<open>initialized\<close> and \<open>linger\<close> remove the index from \<open>systemdNetworkdEnabled\<close>;
  \<open>unmanaged\<close> records \<open>False\<close> for the index and, when \<open>intfInfo\<close> has a record
  for it, calls \<^verbatim>\<open>createInterface\<close> with that record and \<open>False\<close>; every other
  string records \<open>True\<close> and calls \<^verbatim>\<open>createInterface\<close> with \<open>True\<close>.
\<close>

theorem handleAdminState_state_machine:
  "handleAdminState env st i s = admin_state_machine env st i s"
  by (cases "st = ''unmanaged''")
    (simp_all add: handleAdminState_def admin_state_machine_def forget_state_def
      record_state_def Let_def)

theorem handleAdminState_state_machine_witness:
  "handleAdminState example_env ''initialized'' 2 managed_state =
     Inr (managed_state\<lparr>systemdNetworkdEnabled := Map.empty\<rparr>) \<and>
   handleAdminState example_env ''linger'' 2 managed_state =
     Inr (managed_state\<lparr>systemdNetworkdEnabled := Map.empty\<rparr>) \<and>
   systemdNetworkdEnabled
     (result_state (handleAdminState example_env ''unmanaged'' 2 latent_state)) 2 = Some False \<and>
   systemdNetworkdEnabled
     (result_state (handleAdminState example_env ''routable'' 2 latent_state)) 2 = Some True \<and>
   object_of latent_state 2 = None \<and>
   map_option interfaceName
     (object_of (result_state (handleAdminState example_env ''unmanaged'' 2 latent_state)) 2) =
     Some ''eth0'' \<and>
   object_of (result_state (handleAdminState example_env ''unmanaged'' 7 latent_state)) 7 = None"
  unfolding handleAdminState_state_machine
  by (simp add: admin_state_machine_def forget_state_def record_state_def fixture_defs
      method_defs example_defs result_state_def object_of_def)

subsection \<open>addAddress and removeAddress\<close>

text \<open>
  Claim C3, as it stands, fails.  An address with the \<open>DEPRECATED\<close> flag, for an
  index that has no record and is not ignored, raises nothing: \<^verbatim>\<open>addAddress\<close>
  returns before it looks the index up.
\<close>

theorem addAddress_deprecated_counterexample:
  "flags deprecated_addr AND IFA_F_DEPRECATED \<noteq> 0 \<and>
   intfInfo (Manager_init []) (ifidx deprecated_addr) = None \<and>
   ifidx deprecated_addr \<notin> ignoredIntf (Manager_init []) \<and>
   addAddress example_env deprecated_addr (Manager_init []) = Inr (Manager_init []) \<and>
   \<not> raises (addAddress example_env deprecated_addr (Manager_init []))"
  by (simp add: addAddress_def raises_def example_defs)

text \<open>
  Claim C3, amended.  An address with the \<open>DEPRECATED\<close> flag is dropped: the
  method returns with the manager unchanged, whatever the index.  For an address
  without the flag, \<^verbatim>\<open>addAddress\<close> raises exactly when the index has no record in
  \<open>intfInfo\<close> and is not in \<open>ignoredIntf\<close>, and what it raises is the runtime
  error, with the manager unchanged; for an ignored index without a record it
  returns with the manager unchanged; for an index with a record the address is
  stored under its key, and when the index has a per-interface object the object's
  \<^verbatim>\<open>addAddr\<close> is applied to it.
\<close>

theorem addAddress_outcome:
  "(flags info AND IFA_F_DEPRECATED \<noteq> 0 \<longrightarrow> addAddress env info s = Inr s) \<and>
   (flags info AND IFA_F_DEPRECATED = 0 \<longrightarrow>
      (raises (addAddress env info s) \<longleftrightarrow>
         intfInfo s (ifidx info) = None \<and> ifidx info \<notin> ignoredIntf s) \<and>
      (intfInfo s (ifidx info) = None \<and> ifidx info \<notin> ignoredIntf s \<longrightarrow>
         addAddress env info s = Inl (RuntimeError ForAddr (ifidx info), s)) \<and>
      (intfInfo s (ifidx info) = None \<and> ifidx info \<in> ignoredIntf s \<longrightarrow>
         addAddress env info s = Inr s) \<and>
      (intfInfo s (ifidx info) \<noteq> None \<longrightarrow>
         stored_addrs (result_state (addAddress env info s)) (ifidx info) =
           (stored_addrs s (ifidx info))(ifaddr info \<mapsto> info) \<and>
         (\<forall>obj. object_of s (ifidx info) = Some obj \<longrightarrow>
            object_of (result_state (addAddress env info s)) (ifidx info) =
              Some (addAddr env info obj))))"
  by (auto simp: addAddress_def raises_def stored_addrs_def object_of_def result_state_def
      Let_def split: option.splits)

theorem addAddress_outcome_witness:
  "flags deprecated_addr AND IFA_F_DEPRECATED \<noteq> 0 \<and>
   addAddress example_env deprecated_addr latent_state = Inr latent_state \<and>
   flags example_addr AND IFA_F_DEPRECATED = 0 \<and>
   addAddress example_env example_addr (Manager_init []) =
     Inl (RuntimeError ForAddr 2, Manager_init []) \<and>
   raises (addAddress example_env example_addr (Manager_init [])) \<and>
   intfInfo managed_state 2 \<noteq> None \<and>
   object_of managed_state 2 \<noteq> None \<and>
   \<not> raises (addAddress example_env example_addr managed_state) \<and>
   stored_addrs (result_state (addAddress example_env example_addr managed_state)) 2
     (ifaddr example_addr) = Some example_addr \<and>
   map_option eth_addrs
     (object_of (result_state (addAddress example_env example_addr managed_state)) 2) =
     Some ([ifaddr example_addr \<mapsto> example_addr])"
proof -
  have a: "flags deprecated_addr AND IFA_F_DEPRECATED \<noteq> 0"
    "flags example_addr AND IFA_F_DEPRECATED = 0" "ifidx example_addr = 2"
    by (simp_all add: example_defs)
  have b: "intfInfo (Manager_init []) 2 = None" "2 \<notin> ignoredIntf (Manager_init [])"
    by (simp_all add: example_defs)
  have c: "intfInfo managed_state 2 \<noteq> None"
    "object_of managed_state 2 =
       Some \<lparr>interfaceName = ''eth0'', eth_addrs = Map.empty, staticNeighbors = Map.empty,
             defaultGateway = [], defaultGateway6 = []\<rparr>"
    "stored_addrs managed_state 2 = Map.empty"
    by (simp_all add: managed_state_def object_of_def stored_addrs_def result_state_def
        method_defs example_defs)
  have d: "addAddr example_env =
      (\<lambda>info obj. obj\<lparr>eth_addrs := (eth_addrs obj)(ifaddr info \<mapsto> info)\<rparr>)"
    by (simp add: example_env_def)
  show ?thesis
    using a b c d addAddress_outcome [of deprecated_addr example_env latent_state]
      addAddress_outcome [of example_addr example_env "Manager_init []"]
      addAddress_outcome [of example_addr example_env managed_state]
    by (simp add: raises_def)
qed

text \<open>
  Without an object for the index \<^verbatim>\<open>removeAddress\<close> does nothing at all: the
  erasure from \<open>intfInfo\<close> is nested inside the test for the object.
\<close>

lemma removeAddress_without_object:
  "interfacesByIdx s (ifidx info) = None \<Longrightarrow> removeAddress info s = Inr s"
  by (simp add: removeAddress_def)

text \<open>
  Claim C4 does not hold of the code.  Link 2 is known but has no object (the
  supervisor has not reported on it); an address is added and then removed.  The
  address is still recorded in \<open>intfInfo\<close> afterwards.  The sibling
  \<^verbatim>\<open>removeNeighbor\<close>, in the same situation, does erase its record.
\<close>

theorem removeAddress_keeps_record_without_object:
  "interfacesByIdx (result_state (run example_env
      [Netlink (RTM_NEWLINK eth0_link), Netlink (RTM_NEWADDR example_addr)]
      (Manager_init []))) 2 = None \<and>
   stored_addrs (result_state (run example_env
      [Netlink (RTM_NEWLINK eth0_link), Netlink (RTM_NEWADDR example_addr)]
      (Manager_init []))) 2 (ifaddr example_addr)
     = Some example_addr \<and>
   stored_addrs (result_state (run example_env
      [Netlink (RTM_NEWLINK eth0_link), Netlink (RTM_NEWADDR example_addr),
       Netlink (RTM_DELADDR example_addr)] (Manager_init []))) 2 (ifaddr example_addr)
     = Some example_addr \<and>
   stored_neighs (result_state (run example_env
      [Netlink (RTM_NEWLINK eth0_link), Netlink (RTM_NEWNEIGH example_neigh)]
      (Manager_init []))) 2 (In4Addr 0xC0A80101)
     = Some example_neigh \<and>
   stored_neighs (result_state (run example_env
      [Netlink (RTM_NEWLINK eth0_link), Netlink (RTM_NEWNEIGH example_neigh),
       Netlink (RTM_DELNEIGH example_neigh)] (Manager_init []))) 2 (In4Addr 0xC0A80101)
     = None"
  by (simp add: method_defs example_defs result_state_def stored_addrs_def stored_neighs_def)

subsection \<open>removeInterface\<close>

lemma removeInterface_desync_iff:
  "removeInterface_desync info s \<longleftrightarrow>
     (\<exists>n q p. name info = Some n \<and> map_of (interfaces s) n = Some q \<and>
        interfacesByIdx s (idx info) = Some p \<and> q \<noteq> p)"
  by (auto simp: removeInterface_desync_def split: option.splits)

text \<open>
  Claim C5, as it stands, fails.  Link 2 has its object, is renamed to the ignored
  \<open>usb0\<close> (which puts index 2 into \<open>ignoredIntf\<close>) and back to \<open>eth0\<close>.  Its
  removal finds the same object by index and by name, so nothing aborts, but
  index 2 is still in \<open>ignoredIntf\<close> afterwards: the method takes an index out of
  \<open>ignoredIntf\<close> only on the branch where \<open>interfacesByIdx\<close> has no binding.
\<close>

theorem removeInterface_keeps_ignored_counterexample:
  "2 \<in> ignoredIntf renamed_state \<and>
   \<not> removeInterface_desync eth0_link renamed_state \<and>
   \<not> isl (removeInterface eth0_link renamed_state) \<and>
   2 \<in> ignoredIntf (result_state (removeInterface eth0_link renamed_state))"
  by (simp add: renamed_state_def method_defs example_defs result_state_def)

text \<open>
  Claim C5, amended.  When the event has a name, the name and the index are both
  bound, and the two pointers differ, the process aborts.  Otherwise the method
  returns, having erased the binding of the index in \<open>interfacesByIdx\<close>, the
  binding of the name in \<open>interfaces\<close> (for an event without a name: the binding
  of the first entry that holds the pointer found by index), and the record of the
  index in \<open>intfInfo\<close>; the index is taken out of \<open>ignoredIntf\<close> only when
  \<open>interfacesByIdx\<close> had no binding for it, and \<open>ignoredIntf\<close> is left as it is
  otherwise.
\<close>

theorem removeInterface_effect:
  "(removeInterface_desync info s \<longleftrightarrow>
      (\<exists>n q p. name info = Some n \<and> map_of (interfaces s) n = Some q \<and>
         interfacesByIdx s (idx info) = Some p \<and> q \<noteq> p)) \<and>
   (removeInterface_desync info s \<longrightarrow> removeInterface info s = Inl (Aborted, s)) \<and>
   (\<not> removeInterface_desync info s \<longrightarrow>
      (\<exists>s'. removeInterface info s = Inr s' \<and>
         interfacesByIdx s' = (interfacesByIdx s)(idx info := None) \<and>
         intfInfo s' = (intfInfo s)(idx info := None) \<and>
         ignoredIntf s' =
           (if interfacesByIdx s (idx info) = None then ignoredIntf s - {idx info}
            else ignoredIntf s) \<and>
         (\<forall>n. name info = Some n \<longrightarrow>
            map_of (interfaces s') = (map_of (interfaces s))(n := None)) \<and>
         (\<forall>n p. name info = None \<and> interfacesByIdx s (idx info) = Some p \<and>
            find (\<lambda>e. snd e = p) (interfaces s) = Some (n, p) \<longrightarrow>
            map_of (interfaces s') = (map_of (interfaces s))(n := None))))"
  apply (intro conjI)
    apply (rule removeInterface_desync_iff)
   apply (simp add: removeInterface_def)
  apply (auto simp: removeInterface_def removeInterface_nit_def Let_def AList.delete_conv'
      split: option.splits)
  done

theorem removeInterface_effect_witness:
  "removeInterface_desync (eth0_link\<lparr>name := Some ''eth1''\<rparr>) two_links_state \<and>
   removeInterface (eth0_link\<lparr>name := Some ''eth1''\<rparr>) two_links_state =
     Inl (Aborted, two_links_state) \<and>
   \<not> removeInterface_desync eth0_link managed_state \<and>
   \<not> isl (removeInterface eth0_link managed_state) \<and>
   interfacesByIdx managed_state 2 = Some 0 \<and>
   interfacesByIdx (result_state (removeInterface eth0_link managed_state)) 2 = None \<and>
   map_of (interfaces managed_state) ''eth0'' = Some 0 \<and>
   map_of (interfaces (result_state (removeInterface eth0_link managed_state))) ''eth0'' = None \<and>
   intfInfo (result_state (removeInterface eth0_link managed_state)) 2 = None \<and>
   \<not> removeInterface_desync usb0_link ignored_state \<and>
   ignoredIntf ignored_state = {2} \<and>
   ignoredIntf (result_state (removeInterface usb0_link ignored_state)) = {}"
proof -
  have a: "removeInterface_desync (eth0_link\<lparr>name := Some ''eth1''\<rparr>) two_links_state"
    by (simp add: fixture_defs method_defs example_defs result_state_def)
  have b: "\<not> removeInterface_desync eth0_link managed_state"
    "interfacesByIdx managed_state 2 = Some 0"
    "map_of (interfaces managed_state) ''eth0'' = Some 0"
    "name eth0_link = Some ''eth0''" "idx eth0_link = 2"
    by (simp_all add: fixture_defs method_defs example_defs result_state_def)
  have c: "\<not> removeInterface_desync usb0_link ignored_state"
    "ignoredIntf ignored_state = {2}" "interfacesByIdx ignored_state 2 = None"
    "idx usb0_link = 2"
    by (simp_all add: fixture_defs method_defs example_defs result_state_def)
  from removeInterface_effect [of "eth0_link\<lparr>name := Some ''eth1''\<rparr>" two_links_state] a
  have 1: "removeInterface (eth0_link\<lparr>name := Some ''eth1''\<rparr>) two_links_state =
     Inl (Aborted, two_links_state)" by blast
  from removeInterface_effect [of eth0_link managed_state] b obtain s' where
    2: "removeInterface eth0_link managed_state = Inr s'"
      "interfacesByIdx s' = (interfacesByIdx managed_state)(2 := None)"
      "intfInfo s' = (intfInfo managed_state)(2 := None)"
      "map_of (interfaces s') = (map_of (interfaces managed_state))(''eth0'' := None)"
    by auto
  from removeInterface_effect [of usb0_link ignored_state] c obtain s'' where
    3: "removeInterface usb0_link ignored_state = Inr s''"
      "ignoredIntf s'' = ignoredIntf ignored_state - {2}"
    by auto
  show ?thesis using a b c 1 2 3 by (simp add: result_state_def)
qed

subsection \<open>Default gateways\<close>

lemma addDefGw_known:
  assumes "intfInfo s i = Some rec" and "not_dangling s i"
  shows "\<exists>s1. addDefGw env i a s = Inr s1 \<and> not_dangling s1 i \<and>
           intfInfo s1 i = Some (set_defgw a rec) \<and>
           object_of s1 i = map_option (set_defaultGateway env a) (object_of s i)"
  using assms
  by (auto simp: addDefGw_def not_dangling_def object_of_def Let_def split: option.splits)

lemma removeDefGw_known:
  assumes "intfInfo s i = Some rec" and "not_dangling s i"
  shows "\<exists>s1. removeDefGw env i a s = Inr s1 \<and> not_dangling s1 i \<and>
           intfInfo s1 i = Some (reset_defgw a rec) \<and>
           object_of s1 i = map_option (reset_defaultGateway env a) (object_of s i)"
  using assms
  by (auto simp: removeDefGw_def not_dangling_def object_of_def Let_def split: option.splits)

lemma reset_set_defgw:
  "reset_defgw a (set_defgw a rec) =
     (case a of In4Addr a4 \<Rightarrow> rec\<lparr>defgw4 := None\<rparr> | In6Addr a6 \<Rightarrow> rec\<lparr>defgw6 := None\<rparr>)"
  by (simp add: reset_defgw_def set_defgw_def split: InAnyAddr.splits)

lemma reset_set_defaultGateway:
  "reset_defaultGateway env a (set_defaultGateway env a obj) =
     (case a of In4Addr a4 \<Rightarrow> obj\<lparr>defaultGateway := []\<rparr>
              | In6Addr a6 \<Rightarrow> obj\<lparr>defaultGateway6 := []\<rparr>)"
  by (simp add: reset_defaultGateway_def set_defaultGateway_def split: InAnyAddr.splits)

lemma reset_defgw_explicit:
  "reset_defgw a rec =
     (case a of
        In4Addr a4 \<Rightarrow> rec\<lparr>defgw4 := (if defgw4 rec = Some a4 then None else defgw4 rec)\<rparr>
      | In6Addr a6 \<Rightarrow> rec\<lparr>defgw6 := (if defgw6 rec = Some a6 then None else defgw6 rec)\<rparr>)"
  by (simp add: reset_defgw_def split: InAnyAddr.splits)

lemma reset_defaultGateway_explicit:
  "reset_defaultGateway env a =
     (\<lambda>obj. case a of
        In4Addr a4 \<Rightarrow>
          obj\<lparr>defaultGateway :=
                (if defaultGateway obj = toStr env a then [] else defaultGateway obj)\<rparr>
      | In6Addr a6 \<Rightarrow>
          obj\<lparr>defaultGateway6 :=
                (if defaultGateway6 obj = toStr env a then [] else defaultGateway6 obj)\<rparr>)"
  by (rule ext) (simp add: reset_defaultGateway_def split: InAnyAddr.splits)

lemma add_add_remove_defgw:
  assumes "intfInfo s i = Some rec" and "not_dangling s i"
  shows "\<exists>s1 s2 s3. addDefGw env i a s = Inr s1 \<and> addDefGw env i b s1 = Inr s2 \<and>
           removeDefGw env i a s2 = Inr s3 \<and>
           intfInfo s3 i = Some (reset_defgw a (set_defgw b (set_defgw a rec)))"
proof -
  from addDefGw_known [OF assms, of env a] obtain s1 where
    s1: "addDefGw env i a s = Inr s1" "not_dangling s1 i"
      "intfInfo s1 i = Some (set_defgw a rec)" by blast
  from addDefGw_known [OF s1(3) s1(2), of env b] obtain s2 where
    s2: "addDefGw env i b s1 = Inr s2" "not_dangling s2 i"
      "intfInfo s2 i = Some (set_defgw b (set_defgw a rec))" by blast
  from removeDefGw_known [OF s2(3) s2(2), of env a] obtain s3 where
    s3: "removeDefGw env i a s2 = Inr s3"
      "intfInfo s3 i = Some (reset_defgw a (set_defgw b (set_defgw a rec)))" by blast
  from s1 s2 s3 show ?thesis by blast
qed

text \<open>
  Claim C6.  Let the index have a record in \<open>intfInfo\<close>, and let its pointer in
  \<open>interfacesByIdx\<close>, if it has one, lead to a live object.  Then
  \<^item> \<^verbatim>\<open>addDefGw(i, a)\<close> followed by \<^verbatim>\<open>removeDefGw(i, a)\<close> both return, and leave
    the gateway of the family of \<open>a\<close> empty in the record (the rest of the record
    as it was) and the corresponding property of the object, if there is one, empty;
  \<^item> \<^verbatim>\<open>removeDefGw(i, a)\<close> alone clears the recorded gateway of that family if and
    only if it equals \<open>a\<close>, and clears the object's property if and only if it
    equals the text of \<open>a\<close>; otherwise each keeps its value;
  \<^item> so after \<open>a\<close>, then a different gateway \<open>b\<close> of the same family, the removal
    of \<open>a\<close> leaves \<open>b\<close> recorded.
\<close>

theorem defgw_add_then_remove:
  assumes "intfInfo s i = Some rec" and "not_dangling s i"
  shows "(\<exists>s1 s2. addDefGw env i a s = Inr s1 \<and> removeDefGw env i a s1 = Inr s2 \<and>
            intfInfo s2 i =
              Some (case a of In4Addr a4 \<Rightarrow> rec\<lparr>defgw4 := None\<rparr>
                            | In6Addr a6 \<Rightarrow> rec\<lparr>defgw6 := None\<rparr>) \<and>
            object_of s2 i =
              map_option (\<lambda>obj. case a of In4Addr a4 \<Rightarrow> obj\<lparr>defaultGateway := []\<rparr>
                                          | In6Addr a6 \<Rightarrow> obj\<lparr>defaultGateway6 := []\<rparr>)
                (object_of s i)) \<and>
         (\<exists>s'. removeDefGw env i a s = Inr s' \<and>
            intfInfo s' i =
              Some (case a of
                      In4Addr a4 \<Rightarrow>
                        rec\<lparr>defgw4 := (if defgw4 rec = Some a4 then None else defgw4 rec)\<rparr>
                    | In6Addr a6 \<Rightarrow>
                        rec\<lparr>defgw6 := (if defgw6 rec = Some a6 then None else defgw6 rec)\<rparr>) \<and>
            object_of s' i =
              map_option
                (\<lambda>obj. case a of
                          In4Addr a4 \<Rightarrow>
                            obj\<lparr>defaultGateway :=
                                  (if defaultGateway obj = toStr env a then []
                                   else defaultGateway obj)\<rparr>
                        | In6Addr a6 \<Rightarrow>
                            obj\<lparr>defaultGateway6 :=
                                  (if defaultGateway6 obj = toStr env a then []
                                   else defaultGateway6 obj)\<rparr>)
                (object_of s i)) \<and>
         (\<forall>b4 a4. a = In4Addr a4 \<and> b4 \<noteq> a4 \<longrightarrow>
            (\<exists>s1 s2 s3. addDefGw env i a s = Inr s1 \<and>
               addDefGw env i (In4Addr b4) s1 = Inr s2 \<and> removeDefGw env i a s2 = Inr s3 \<and>
               map_option defgw4 (intfInfo s3 i) = Some (Some b4))) \<and>
         (\<forall>b6 a6. a = In6Addr a6 \<and> b6 \<noteq> a6 \<longrightarrow>
            (\<exists>s1 s2 s3. addDefGw env i a s = Inr s1 \<and>
               addDefGw env i (In6Addr b6) s1 = Inr s2 \<and> removeDefGw env i a s2 = Inr s3 \<and>
               map_option defgw6 (intfInfo s3 i) = Some (Some b6)))"
proof -
  have round_trip: "\<exists>s1 s2. addDefGw env i a s = Inr s1 \<and> removeDefGw env i a s1 = Inr s2 \<and>
            intfInfo s2 i =
              Some (case a of In4Addr a4 \<Rightarrow> rec\<lparr>defgw4 := None\<rparr>
                            | In6Addr a6 \<Rightarrow> rec\<lparr>defgw6 := None\<rparr>) \<and>
            object_of s2 i =
              map_option (\<lambda>obj. case a of In4Addr a4 \<Rightarrow> obj\<lparr>defaultGateway := []\<rparr>
                                          | In6Addr a6 \<Rightarrow> obj\<lparr>defaultGateway6 := []\<rparr>)
                (object_of s i)"
  proof -
    from addDefGw_known [OF assms, of env a] obtain s1 where
      s1: "addDefGw env i a s = Inr s1" "not_dangling s1 i"
        "intfInfo s1 i = Some (set_defgw a rec)"
        "object_of s1 i = map_option (set_defaultGateway env a) (object_of s i)"
      by blast
    from removeDefGw_known [OF s1(3) s1(2), of env a] obtain s2 where
      s2: "removeDefGw env i a s1 = Inr s2"
        "intfInfo s2 i = Some (reset_defgw a (set_defgw a rec))"
        "object_of s2 i = map_option (reset_defaultGateway env a) (object_of s1 i)"
      by blast
    from s1 s2 show ?thesis
      by (auto simp: reset_set_defgw reset_set_defaultGateway option.map_comp comp_def)
  qed
  have removal: "\<exists>s'. removeDefGw env i a s = Inr s' \<and>
            intfInfo s' i =
              Some (case a of
                      In4Addr a4 \<Rightarrow>
                        rec\<lparr>defgw4 := (if defgw4 rec = Some a4 then None else defgw4 rec)\<rparr>
                    | In6Addr a6 \<Rightarrow>
                        rec\<lparr>defgw6 := (if defgw6 rec = Some a6 then None else defgw6 rec)\<rparr>) \<and>
            object_of s' i =
              map_option
                (\<lambda>obj. case a of
                          In4Addr a4 \<Rightarrow>
                            obj\<lparr>defaultGateway :=
                                  (if defaultGateway obj = toStr env a then []
                                   else defaultGateway obj)\<rparr>
                        | In6Addr a6 \<Rightarrow>
                            obj\<lparr>defaultGateway6 :=
                                  (if defaultGateway6 obj = toStr env a then []
                                   else defaultGateway6 obj)\<rparr>)
                (object_of s i)"
    using removeDefGw_known [OF assms, of env a]
    unfolding reset_defgw_explicit [of a rec] reset_defaultGateway_explicit [of env a]
    by blast
  have stale4: "\<forall>b4 a4. a = In4Addr a4 \<and> b4 \<noteq> a4 \<longrightarrow>
            (\<exists>s1 s2 s3. addDefGw env i a s = Inr s1 \<and>
               addDefGw env i (In4Addr b4) s1 = Inr s2 \<and> removeDefGw env i a s2 = Inr s3 \<and>
               map_option defgw4 (intfInfo s3 i) = Some (Some b4))"
  proof (intro allI impI)
    fix b4 a4 assume h: "a = In4Addr a4 \<and> b4 \<noteq> a4"
    from add_add_remove_defgw [OF assms, of env a "In4Addr b4"] obtain s1 s2 s3 where
      "addDefGw env i a s = Inr s1" "addDefGw env i (In4Addr b4) s1 = Inr s2"
      "removeDefGw env i a s2 = Inr s3"
      "intfInfo s3 i = Some (reset_defgw a (set_defgw (In4Addr b4) (set_defgw a rec)))"
      by blast
    with h show "\<exists>s1 s2 s3. addDefGw env i a s = Inr s1 \<and>
               addDefGw env i (In4Addr b4) s1 = Inr s2 \<and> removeDefGw env i a s2 = Inr s3 \<and>
               map_option defgw4 (intfInfo s3 i) = Some (Some b4)"
      by (auto simp: reset_defgw_def set_defgw_def)
  qed
  have stale6: "\<forall>b6 a6. a = In6Addr a6 \<and> b6 \<noteq> a6 \<longrightarrow>
            (\<exists>s1 s2 s3. addDefGw env i a s = Inr s1 \<and>
               addDefGw env i (In6Addr b6) s1 = Inr s2 \<and> removeDefGw env i a s2 = Inr s3 \<and>
               map_option defgw6 (intfInfo s3 i) = Some (Some b6))"
  proof (intro allI impI)
    fix b6 a6 assume h: "a = In6Addr a6 \<and> b6 \<noteq> a6"
    from add_add_remove_defgw [OF assms, of env a "In6Addr b6"] obtain s1 s2 s3 where
      "addDefGw env i a s = Inr s1" "addDefGw env i (In6Addr b6) s1 = Inr s2"
      "removeDefGw env i a s2 = Inr s3"
      "intfInfo s3 i = Some (reset_defgw a (set_defgw (In6Addr b6) (set_defgw a rec)))"
      by blast
    with h show "\<exists>s1 s2 s3. addDefGw env i a s = Inr s1 \<and>
               addDefGw env i (In6Addr b6) s1 = Inr s2 \<and> removeDefGw env i a s2 = Inr s3 \<and>
               map_option defgw6 (intfInfo s3 i) = Some (Some b6)"
      by (auto simp: reset_defgw_def set_defgw_def)
  qed
  from round_trip removal stale4 stale6 show ?thesis by blast
qed

theorem defgw_add_then_remove_witness:
  "intfInfo managed_state 2 \<noteq> None \<and> not_dangling managed_state 2 \<and>
   object_of managed_state 2 \<noteq> None \<and>
   map_option defgw4
     (intfInfo (result_state (removeDefGw example_env 2 (In4Addr 0xC0A80101)
        (result_state (addDefGw example_env 2 (In4Addr 0xC0A80101) managed_state)))) 2)
     = Some None \<and>
   map_option defaultGateway
     (object_of (result_state (removeDefGw example_env 2 (In4Addr 0xC0A80101)
        (result_state (addDefGw example_env 2 (In4Addr 0xC0A80101) managed_state)))) 2)
     = Some [] \<and>
   map_option defgw4
     (intfInfo (result_state (removeDefGw example_env 2 (In4Addr 0xC0A80101)
        (result_state (addDefGw example_env 2 (In4Addr 0xC0A801FE)
           (result_state (addDefGw example_env 2 (In4Addr 0xC0A80101) managed_state)))))) 2)
     = Some (Some 0xC0A801FE)"
proof -
  let ?a = "In4Addr 0xC0A80101"
  obtain rec where a: "intfInfo managed_state 2 = Some rec"
    by (simp add: fixture_defs method_defs example_defs result_state_def)
  have b: "not_dangling managed_state 2"
    by (simp add: not_dangling_def fixture_defs method_defs example_defs result_state_def)
  obtain obj where o: "object_of managed_state 2 = Some obj"
    by (simp add: object_of_def fixture_defs method_defs example_defs result_state_def)
  have c: "?a = In4Addr 0xC0A80101 \<and> (0xC0A801FE :: 32 word) \<noteq> 0xC0A80101"
    by simp
  note T = defgw_add_then_remove [OF a b, of example_env ?a]
  from T [THEN conjunct1] obtain s1 s2 where
    1: "addDefGw example_env 2 ?a managed_state = Inr s1"
       "removeDefGw example_env 2 ?a s1 = Inr s2"
       "intfInfo s2 2 = Some (rec\<lparr>defgw4 := None\<rparr>)"
       "object_of s2 2 =
          map_option (\<lambda>obj. obj\<lparr>defaultGateway := []\<rparr>) (object_of managed_state 2)"
    by auto
  from T [THEN conjunct2, THEN conjunct2, THEN conjunct1, rule_format, OF c]
  obtain t1 t2 t3 where
    2: "addDefGw example_env 2 ?a managed_state = Inr t1"
       "addDefGw example_env 2 (In4Addr 0xC0A801FE) t1 = Inr t2"
       "removeDefGw example_env 2 ?a t2 = Inr t3"
       "map_option defgw4 (intfInfo t3 2) = Some (Some 0xC0A801FE)"
    by blast
  have r1: "result_state (removeDefGw example_env 2 ?a
              (result_state (addDefGw example_env 2 ?a managed_state))) = s2"
    by (simp add: 1 result_state_def)
  have r2: "result_state (removeDefGw example_env 2 ?a
        (result_state (addDefGw example_env 2 (In4Addr 0xC0A801FE)
           (result_state (addDefGw example_env 2 ?a managed_state))))) = t3"
    by (simp add: 2 result_state_def)
  show ?thesis
    unfolding r1 r2 using a b o 1(3,4) 2(4) by simp
qed

subsection \<open>vlan\<close>

text \<open>
  Claim C7.  The checks of \<^verbatim>\<open>vlan\<close> in their order: an id of 0, or of 4095 and
  above, raises the invalid-argument error, whatever the name; a valid id with a
  name that \<open>interfaces\<close> does not hold raises the resource-not-found error; a valid
  id with a name that is held gives exactly what the parent object's
  \<^verbatim>\<open>createVLAN\<close> gives.  The first error leaves the manager as it was but for one
  line in the journal, the second leaves it as it was.
\<close>

theorem vlan_outcome:
  "(vid = 0 \<or> 4095 \<le> vid \<longrightarrow>
      vlan env n vid s =
        Inl (InvalidArgument vid, s\<lparr>journal := journal s @ [VlanIdNotValid vid]\<rparr>) \<and>
      registry (s\<lparr>journal := journal s @ [VlanIdNotValid vid]\<rparr>) = registry s) \<and>
   (vid \<noteq> 0 \<and> vid < 4095 \<longrightarrow>
      (map_of (interfaces s) n = None \<longrightarrow> vlan env n vid s = Inl (ResourceNotFound n, s)) \<and>
      (\<forall>p. map_of (interfaces s) n = Some p \<longrightarrow> vlan env n vid s = createVLAN env p vid s))"
  by (auto simp: vlan_def registry_def)

theorem vlan_outcome_witness:
  "vlan example_env ''eth0'' 0 managed_state =
     Inl (InvalidArgument 0,
          managed_state\<lparr>journal := journal managed_state @ [VlanIdNotValid 0]\<rparr>) \<and>
   vlan example_env ''eth0'' 4095 managed_state =
     Inl (InvalidArgument 4095,
          managed_state\<lparr>journal := journal managed_state @ [VlanIdNotValid 4095]\<rparr>) \<and>
   map_of (interfaces managed_state) ''eth9'' = None \<and>
   vlan example_env ''eth9'' 100 managed_state = Inl (ResourceNotFound ''eth9'', managed_state) \<and>
   map_of (interfaces managed_state) ''eth0'' = Some 0 \<and>
   vlan example_env ''eth0'' 100 managed_state =
     Inr (''/xyz/openbmc_project/network/vlan'', managed_state)"
proof -
  have a: "map_of (interfaces managed_state) ''eth9'' = None"
    "map_of (interfaces managed_state) ''eth0'' = Some 0"
    by (simp_all add: fixture_defs method_defs example_defs result_state_def)
  have b: "(100::32 word) \<noteq> 0 \<and> (100::32 word) < 4095" "(4095::32 word) \<le> 4095"
    by simp_all
  have c: "createVLAN example_env 0 100 managed_state =
     Inr (''/xyz/openbmc_project/network/vlan'', managed_state)"
    by (simp add: example_env_def)
  show ?thesis
    using a b c vlan_outcome [of 0 example_env "''eth0''" managed_state]
      vlan_outcome [of 4095 example_env "''eth0''" managed_state]
      vlan_outcome [of 100 example_env "''eth9''" managed_state]
      vlan_outcome [of 100 example_env "''eth0''" managed_state]
    by simp
qed

subsection \<open>The reload callback\<close>

lemma run_pre_hooks_quiet:
  "hooks_quiet PreHooks hs (world r) \<Longrightarrow>
   run_hooks PreHooks hs r =
     Inr (r\<lparr>world := hooks_effect hs (world r),
            reload_journal := reload_journal r @ hooks_failures hs (world r),
            reloadPostHooks := reloadPostHooks r @ registered_post hs (world r)\<rparr>)"
proof (induction hs arbitrary: r)
  case Nil
  show ?case by simp
next
  case (Cons h hs)
  obtain c w pre post where h: "call_hook h (world r) = (c, w, pre, post)"
    by (cases "call_hook h (world r)") auto
  with Cons.prems have q: "c \<noteq> ThrewOther" "pre = []" "hooks_quiet PreHooks hs w"
    by simp_all
  let ?r1 = "(register_hooks pre post r)\<lparr>world := w\<rparr>"
  show ?case
  proof (cases "c = ThrewCaught")
    case True
    let ?r2 = "?r1\<lparr>reload_journal := reload_journal ?r1 @ [FailedExecutingReloadHook]\<rparr>"
    have "hooks_quiet PreHooks hs (world ?r2)" using q by simp
    from Cons.IH [OF this] h q True show ?thesis
      by (simp add: register_hooks_def Let_def)
  next
    case False
    have "hooks_quiet PreHooks hs (world ?r1)" using q by simp
    from Cons.IH [OF this] h q False show ?thesis
      by (simp add: register_hooks_def Let_def)
  qed
qed

lemma run_post_hooks_quiet:
  "hooks_quiet PostHooks hs (world r) \<Longrightarrow>
   run_hooks PostHooks hs r =
     Inr (r\<lparr>world := hooks_effect hs (world r),
            reload_journal := reload_journal r @ hooks_failures hs (world r),
            reloadPreHooks := reloadPreHooks r @ registered_pre hs (world r)\<rparr>)"
proof (induction hs arbitrary: r)
  case Nil
  show ?case by simp
next
  case (Cons h hs)
  obtain c w pre post where h: "call_hook h (world r) = (c, w, pre, post)"
    by (cases "call_hook h (world r)") auto
  with Cons.prems have q: "c \<noteq> ThrewOther" "post = []" "hooks_quiet PostHooks hs w"
    by simp_all
  let ?r1 = "(register_hooks pre post r)\<lparr>world := w\<rparr>"
  show ?case
  proof (cases "c = ThrewCaught")
    case True
    let ?r2 = "?r1\<lparr>reload_journal := reload_journal ?r1 @ [FailedExecutingReloadHook]\<rparr>"
    have "hooks_quiet PostHooks hs (world ?r2)" using q by simp
    from Cons.IH [OF this] h q True show ?thesis
      by (simp add: register_hooks_def Let_def)
  next
    case False
    have "hooks_quiet PostHooks hs (world ?r1)" using q by simp
    from Cons.IH [OF this] h q False show ?thesis
      by (simp add: register_hooks_def Let_def)
  qed
qed


lemma run_pre_hooks_fields:
  assumes "hooks_quiet PreHooks hs (world r)"
  shows "\<exists>r'. run_hooks PreHooks hs r = Inr r' \<and>
           world r' = hooks_effect hs (world r) \<and>
           reload_journal r' = reload_journal r @ hooks_failures hs (world r) \<and>
           reloadPostHooks r' = reloadPostHooks r @ registered_post hs (world r) \<and>
           reloadPreHooks r' = reloadPreHooks r"
  unfolding run_pre_hooks_quiet [OF assms] by simp

lemma run_post_hooks_fields:
  assumes "hooks_quiet PostHooks hs (world r)"
  shows "\<exists>r'. run_hooks PostHooks hs r = Inr r' \<and>
           world r' = hooks_effect hs (world r) \<and>
           reload_journal r' = reload_journal r @ hooks_failures hs (world r) \<and>
           reloadPreHooks r' = reloadPreHooks r @ registered_pre hs (world r) \<and>
           reloadPostHooks r' = reloadPostHooks r"
  unfolding run_post_hooks_quiet [OF assms] by simp

text \<open>
  Claim C8, as it stands, fails.  The callback empties \<^verbatim>\<open>reloadPreHooks\<close> right
  after the first loop, before the \<^verbatim>\<open>Reload\<close> call and the second loop.  A
  post-hook that registers a pre-hook therefore leaves the list of pre-hooks
  non-empty when the firing completes.
\<close>

theorem reloadCallback_lists_counterexample:
  "\<not> isl (reloadCallback (example_rpc Returned) registering_reloader) \<and>
   world (firing_state (reloadCallback (example_rpc Returned) registering_reloader)) =
     [''pre1'', ''Reload'', ''post1''] \<and>
   reloadPreHooks (firing_state (reloadCallback (example_rpc Returned) registering_reloader)) =
     [named_hook ''next'' Returned [] []] \<and>
   reloadPreHooks (firing_state (reloadCallback (example_rpc Returned) registering_reloader))
     \<noteq> []"
  by (simp add: reloadCallback_def reloadCallback_post_def registering_reloader_def
      named_hook_def example_rpc_def register_hooks_def firing_state_def Let_def)

text \<open>
  Claim C8, amended.  Take a firing in which no hook throws anything but a
  \<^verbatim>\<open>std::exception\<close>, the \<^verbatim>\<open>Reload\<close> call throws nothing but the exception the
  callback catches, and no hook registers a hook into the list that is being run.
  It completes, and
  \<^item> every pre-hook is called, in list order, each on the world its predecessor
    left; a failure is logged and stops nothing;
  \<^item> the \<^verbatim>\<open>Reload\<close> call is made on the world the pre-hooks left;
  \<^item> if the call succeeds, every post-hook is called in list order with the same
    error policy: those registered before the firing, then those the
    pre-hooks registered during it; if the call fails, no post-hook is called;
  \<^item> afterwards the list of post-hooks is empty, and the list of pre-hooks holds
    exactly the hooks that the post-hooks registered during the firing: it is
    empty when the call failed or no post-hook registered one.
\<close>

theorem reloadCallback_firing:
  assumes "hooks_quiet PreHooks (reloadPreHooks r) (world r)"
    and "w1 = hooks_effect (reloadPreHooks r) (world r)"
    and "posts = reloadPostHooks r @ hooks_registered PreHooks (reloadPreHooks r) (world r)"
    and "rpc w1 = (c, w2)" and "c \<noteq> ThrewOther"
    and "c = Returned \<Longrightarrow> hooks_quiet PostHooks posts w2"
  shows "\<exists>r'. reloadCallback rpc r = Inr r' \<and>
           reloadPostHooks r' = [] \<and>
           reloadPreHooks r' =
             (if c = Returned then hooks_registered PostHooks posts w2 else []) \<and>
           world r' = (if c = Returned then hooks_effect posts w2 else w2) \<and>
           reload_journal r' =
             reload_journal r @ hooks_failures (reloadPreHooks r) (world r) @
             (if c = Returned then ReloadedNetworkd # hooks_failures posts w2
              else [FailedToReloadConfiguration])"
proof -
  from run_pre_hooks_fields [OF assms(1)] obtain r1 where
    r1: "run_hooks PreHooks (reloadPreHooks r) r = Inr r1" "world r1 = w1"
      "reload_journal r1 = reload_journal r @ hooks_failures (reloadPreHooks r) (world r)"
      "reloadPostHooks r1 = posts"
    using assms(2,3) by (auto simp: hooks_registered_def)
  show ?thesis
  proof (cases c)
    case Returned
    let ?r3 = "r1\<lparr>reloadPreHooks := [], world := w2,
                  reload_journal := reload_journal r1 @ [ReloadedNetworkd]\<rparr>"
    have "hooks_quiet PostHooks (reloadPostHooks ?r3) (world ?r3)"
      using assms(6) Returned r1 by simp
    from run_post_hooks_fields [OF this] obtain r4 where
      r4: "run_hooks PostHooks (reloadPostHooks ?r3) ?r3 = Inr r4"
        "world r4 = hooks_effect posts w2"
        "reload_journal r4 = reload_journal r1 @ ReloadedNetworkd # hooks_failures posts w2"
        "reloadPreHooks r4 = registered_pre posts w2"
      using r1 by auto
    have "reloadCallback rpc r = Inr (r4\<lparr>reloadPostHooks := []\<rparr>)"
      using r1 r4(1) assms(4) Returned
      by (simp add: reloadCallback_def reloadCallback_post_def Let_def)
    with r4 r1 Returned show ?thesis by (simp add: hooks_registered_def)
  next
    case ThrewCaught
    have "reloadCallback rpc r =
        Inr (r1\<lparr>reloadPreHooks := [], world := w2,
                  reload_journal := reload_journal r1 @ [FailedToReloadConfiguration],
                  reloadPostHooks := []\<rparr>)"
      using r1 assms(4) ThrewCaught
      by (simp add: reloadCallback_def reloadCallback_post_def Let_def)
    with r1 ThrewCaught show ?thesis by simp
  next
    case ThrewOther
    with assms(5) show ?thesis by simp
  qed
qed

theorem reloadCallback_firing_witness:
  "hooks_quiet PreHooks (reloadPreHooks example_reloader) (world example_reloader) \<and>
   hooks_effect (reloadPreHooks example_reloader) (world example_reloader) = [''pre1'', ''pre2''] \<and>
   \<not> isl (reloadCallback (example_rpc Returned) example_reloader) \<and>
   reloadPreHooks (firing_state (reloadCallback (example_rpc Returned) example_reloader)) = [] \<and>
   reloadPostHooks (firing_state (reloadCallback (example_rpc Returned) example_reloader)) = [] \<and>
   world (firing_state (reloadCallback (example_rpc Returned) example_reloader)) =
     [''pre1'', ''pre2'', ''Reload'', ''post1'', ''post2'', ''post3''] \<and>
   reload_journal (firing_state (reloadCallback (example_rpc Returned) example_reloader)) =
     [FailedExecutingReloadHook, ReloadedNetworkd, FailedExecutingReloadHook] \<and>
   \<not> isl (reloadCallback (example_rpc ThrewCaught) example_reloader) \<and>
   reloadPreHooks (firing_state (reloadCallback (example_rpc ThrewCaught) example_reloader)) = [] \<and>
   reloadPostHooks (firing_state (reloadCallback (example_rpc ThrewCaught) example_reloader)) = [] \<and>
   world (firing_state (reloadCallback (example_rpc ThrewCaught) example_reloader)) =
     [''pre1'', ''pre2'', ''Reload''] \<and>
   reload_journal (firing_state (reloadCallback (example_rpc ThrewCaught) example_reloader)) =
     [FailedExecutingReloadHook, FailedToReloadConfiguration] \<and>
   hooks_registered PostHooks (reloadPostHooks registering_reloader) [''pre1'', ''Reload''] =
     [named_hook ''next'' Returned [] []] \<and>
   reloadPreHooks (firing_state (reloadCallback (example_rpc Returned) registering_reloader)) =
     [named_hook ''next'' Returned [] []]"
proof -
  let ?posts = "[named_hook ''post1'' ThrewCaught [] [], named_hook ''post2'' Returned [] [],
                 named_hook ''post3'' Returned [] []]"
  have a: "hooks_quiet PreHooks (reloadPreHooks example_reloader) (world example_reloader)"
    "hooks_effect (reloadPreHooks example_reloader) (world example_reloader) = [''pre1'', ''pre2'']"
    "reloadPostHooks example_reloader @
       hooks_registered PreHooks (reloadPreHooks example_reloader) (world example_reloader) = ?posts"
    "hooks_failures (reloadPreHooks example_reloader) (world example_reloader) =
       [FailedExecutingReloadHook]"
    "reload_journal example_reloader = []"
    by (simp_all add: example_reloader_def named_hook_def hooks_registered_def)
  have b: "example_rpc Returned [''pre1'', ''pre2''] = (Returned, [''pre1'', ''pre2'', ''Reload''])"
    "example_rpc ThrewCaught [''pre1'', ''pre2''] = (ThrewCaught, [''pre1'', ''pre2'', ''Reload''])"
    by (simp_all add: example_rpc_def)
  have c: "hooks_quiet PostHooks ?posts [''pre1'', ''pre2'', ''Reload'']"
    "hooks_registered PostHooks ?posts [''pre1'', ''pre2'', ''Reload''] = []"
    "hooks_effect ?posts [''pre1'', ''pre2'', ''Reload''] =
       [''pre1'', ''pre2'', ''Reload'', ''post1'', ''post2'', ''post3'']"
    "hooks_failures ?posts [''pre1'', ''pre2'', ''Reload''] = [FailedExecutingReloadHook]"
    by (simp_all add: named_hook_def hooks_registered_def)
  from reloadCallback_firing [where r = example_reloader and rpc = "example_rpc Returned"
      and c = Returned, OF a(1) a(2) [symmetric] a(3) [symmetric] b(1)] c(1)
  obtain r1 where 1: "reloadCallback (example_rpc Returned) example_reloader = Inr r1"
    "reloadPostHooks r1 = []" "reloadPreHooks r1 = []"
    "world r1 = [''pre1'', ''pre2'', ''Reload'', ''post1'', ''post2'', ''post3'']"
    "reload_journal r1 = [FailedExecutingReloadHook, ReloadedNetworkd, FailedExecutingReloadHook]"
    using a(4,5) c(2,3,4) by auto
  from reloadCallback_firing [where r = example_reloader
      and rpc = "example_rpc ThrewCaught" and c = ThrewCaught,
      OF a(1) a(2) [symmetric] a(3) [symmetric] b(2)]
  obtain r2 where 2: "reloadCallback (example_rpc ThrewCaught) example_reloader = Inr r2"
    "reloadPostHooks r2 = []" "reloadPreHooks r2 = []"
    "world r2 = [''pre1'', ''pre2'', ''Reload'']"
    "reload_journal r2 = [FailedExecutingReloadHook, FailedToReloadConfiguration]"
    using a(4,5) by auto
  have d: "hooks_quiet PreHooks (reloadPreHooks registering_reloader) (world registering_reloader)"
    "hooks_effect (reloadPreHooks registering_reloader) (world registering_reloader) = [''pre1'']"
    "reloadPostHooks registering_reloader @
       hooks_registered PreHooks (reloadPreHooks registering_reloader)
         (world registering_reloader) = reloadPostHooks registering_reloader"
    "example_rpc Returned [''pre1''] = (Returned, [''pre1'', ''Reload''])"
    "hooks_quiet PostHooks (reloadPostHooks registering_reloader) [''pre1'', ''Reload'']"
    "hooks_registered PostHooks (reloadPostHooks registering_reloader) [''pre1'', ''Reload''] =
       [named_hook ''next'' Returned [] []]"
    by (simp_all add: registering_reloader_def named_hook_def hooks_registered_def
        example_rpc_def)
  from reloadCallback_firing [where r = registering_reloader
      and rpc = "example_rpc Returned" and c = Returned,
      OF d(1) d(2) [symmetric] d(3) [symmetric] d(4)] d(5)
  obtain r3 where 3: "reloadCallback (example_rpc Returned) registering_reloader = Inr r3"
    "reloadPreHooks r3 = [named_hook ''next'' Returned [] []]"
    using d(6) by auto
  show ?thesis
    using a(1,2) d(6) by (simp add: 1 2 3 firing_state_def)
qed

subsection \<open>reset\<close>

lemma reset_loop_filter: "reset_loop rm fs = filter (\<lambda>f. \<not> rm f) fs"
  by (induction fs) auto

text \<open>
  Claim C9.  \<^verbatim>\<open>reset\<close> never changes the registry.  When the configuration
  directory can be listed it returns, whatever the single removals did: the
  directory then holds exactly the entries whose removal failed, in particular none
  of those whose removal succeeded, and the journal has gained the line that the
  data was purged.
\<close>

theorem reset_purges_directory:
  "registry (result_state (reset env s)) = registry s \<and>
   (\<forall>fs. confDirEntries s = Some fs \<longrightarrow>
      reset env s =
        Inr (s\<lparr>confDirEntries := Some (filter (\<lambda>f. \<not> fsRemove env f) fs),
               journal := journal s @ [NetworkDataPurged]\<rparr>) \<and>
      (\<forall>f. f \<in> set fs \<and> fsRemove env f \<longrightarrow>
         (\<forall>gs. confDirEntries (result_state (reset env s)) = Some gs \<longrightarrow> f \<notin> set gs)))"
  by (auto simp: reset_def registry_def result_state_def reset_loop_filter split: option.splits)

theorem reset_purges_directory_witness:
  "confDirEntries (Manager_init [''eth0.network'', ''busy.network'', ''eth1.network'']) =
     Some [''eth0.network'', ''busy.network'', ''eth1.network''] \<and>
   fsRemove example_env ''eth0.network'' \<and> \<not> fsRemove example_env ''busy.network'' \<and>
   \<not> isl (reset example_env
            (Manager_init [''eth0.network'', ''busy.network'', ''eth1.network''])) \<and>
   confDirEntries (result_state
     (reset example_env (Manager_init [''eth0.network'', ''busy.network'', ''eth1.network''])))
     = Some [''busy.network''] \<and>
   registry (result_state
     (reset example_env (Manager_init [''eth0.network'', ''busy.network'', ''eth1.network''])))
     = registry (Manager_init [''eth0.network'', ''busy.network'', ''eth1.network''])"
proof -
  let ?s = "Manager_init [''eth0.network'', ''busy.network'', ''eth1.network'']"
  have a: "confDirEntries ?s = Some [''eth0.network'', ''busy.network'', ''eth1.network'']"
    by (simp add: Manager_init_def)
  have b: "fsRemove example_env ''eth0.network''" "\<not> fsRemove example_env ''busy.network''"
    "fsRemove example_env ''eth1.network''"
    by (simp_all add: example_env_def)
  note T = reset_purges_directory [of example_env ?s]
  from T have r: "registry (result_state (reset example_env ?s)) = registry ?s"
    by (rule conjunct1)
  from T a have e: "reset example_env ?s =
        Inr (?s\<lparr>confDirEntries :=
                 Some (filter (\<lambda>f. \<not> fsRemove example_env f)
                   [''eth0.network'', ''busy.network'', ''eth1.network'']),
               journal := journal ?s @ [NetworkDataPurged]\<rparr>)"
    by blast
  have f: "filter (\<lambda>f. \<not> fsRemove example_env f)
             [''eth0.network'', ''busy.network'', ''eth1.network''] = [''busy.network'']"
    using b by simp
  have "\<not> isl (reset example_env ?s)"
    unfolding e by simp
  moreover have "confDirEntries (result_state (reset example_env ?s)) = Some [''busy.network'']"
    unfolding e f by (simp add: result_state_def)
  ultimately show ?thesis using a b r by blast
qed

subsection \<open>addDefGw for an index without a record\<close>

text \<open>
  Claim C10, as it stands, fails in two places.  For index 7, which has no record
  and is not ignored, \<^verbatim>\<open>addNeighbor\<close> with a neighbor that is not permanent and
  \<^verbatim>\<open>addAddress\<close> with a \<open>DEPRECATED\<close> address return without raising: both
  drop the event before they look the index up.  And for index 2 after it was
  reported as \<open>eth0\<close> and then as the ignored \<open>usb0\<close>, which is ignored and still
  has its record, \<^verbatim>\<open>addDefGw\<close> stores the gateway: it is no no-op.
\<close>

theorem addDefGw_contrast_counterexample:
  "intfInfo (Manager_init []) 7 = None \<and> 7 \<notin> ignoredIntf (Manager_init []) \<and>
   neigh_ifidx reachable_neigh = 7 \<and>
   addNeighbor example_env reachable_neigh (Manager_init []) = Inr (Manager_init []) \<and>
   \<not> raises (addNeighbor example_env reachable_neigh (Manager_init [])) \<and>
   ifidx deprecated_addr = 7 \<and>
   \<not> raises (addAddress example_env deprecated_addr (Manager_init [])) \<and>
   2 \<in> ignoredIntf overlap_state \<and>
   map_option defgw4 (intfInfo overlap_state 2) = Some None \<and>
   map_option defgw4
     (intfInfo (result_state (addDefGw example_env 2 (In4Addr 0xC0A80101) overlap_state)) 2) =
     Some (Some 0xC0A80101)"
  by (simp add: overlap_state_def reachable_neigh_def method_defs example_defs
      result_state_def raises_def)

text \<open>
  Claim C10, amended.  Let the index have no record in \<open>intfInfo\<close>.  If it is not
  ignored, \<^verbatim>\<open>addDefGw\<close> returns (it raises nothing) with one error line added to
  the journal and the registry unchanged.  In the same situation \<^verbatim>\<open>addAddress\<close>
  raises the runtime error for an address without the \<open>DEPRECATED\<close> flag and
  returns with the manager unchanged for one with it; \<^verbatim>\<open>addNeighbor\<close> raises the
  runtime error for a permanent neighbor with an address and returns with the
  manager unchanged for any other.  If the index is ignored, \<^verbatim>\<open>addDefGw\<close>
  returns with the manager exactly as it was: not even a line in the journal.
\<close>

theorem addDefGw_unknown_index:
  assumes "intfInfo s i = None"
  shows "(i \<notin> ignoredIntf s \<longrightarrow>
            addDefGw env i a s = Inr (s\<lparr>journal := journal s @ [NotFoundForGw i]\<rparr>) \<and>
            registry (result_state (addDefGw env i a s)) = registry s \<and>
            (\<forall>info. ifidx info = i \<longrightarrow>
               addAddress env info s =
                 (if flags info AND IFA_F_DEPRECATED = 0
                  then Inl (RuntimeError ForAddr i, s) else Inr s)) \<and>
            (\<forall>info. neigh_ifidx info = i \<longrightarrow>
               addNeighbor env info s =
                 (if neigh_state info AND NUD_PERMANENT = 0 then Inr s
                  else if neigh_addr info = None then Inr s
                  else Inl (RuntimeError ForNeigh i, s)))) \<and>
         (i \<in> ignoredIntf s \<longrightarrow> addDefGw env i a s = Inr s)"
  using assms
  by (auto simp: addDefGw_def addAddress_def addNeighbor_def registry_def result_state_def)

theorem addDefGw_unknown_index_witness:
  "intfInfo (Manager_init []) 7 = None \<and> 7 \<notin> ignoredIntf (Manager_init []) \<and>
   addDefGw example_env 7 (In4Addr 0xC0A80101) (Manager_init []) =
     Inr ((Manager_init [])\<lparr>journal := [NotFoundForGw 7]\<rparr>) \<and>
   addAddress example_env (example_addr\<lparr>ifidx := 7\<rparr>) (Manager_init []) =
     Inl (RuntimeError ForAddr 7, Manager_init []) \<and>
   addAddress example_env deprecated_addr (Manager_init []) = Inr (Manager_init []) \<and>
   addNeighbor example_env (example_neigh\<lparr>neigh_ifidx := 7\<rparr>) (Manager_init []) =
     Inl (RuntimeError ForNeigh 7, Manager_init []) \<and>
   addNeighbor example_env reachable_neigh (Manager_init []) = Inr (Manager_init []) \<and>
   intfInfo ignored_state 2 = None \<and> 2 \<in> ignoredIntf ignored_state \<and>
   addDefGw example_env 2 (In4Addr 0xC0A80101) ignored_state = Inr ignored_state"
proof -
  have a: "intfInfo (Manager_init []) 7 = None" "7 \<notin> ignoredIntf (Manager_init [])"
    "journal (Manager_init []) = []"
    by (simp_all add: Manager_init_def)
  have b: "intfInfo ignored_state 2 = None" "2 \<in> ignoredIntf ignored_state"
    by (simp_all add: fixture_defs method_defs example_defs result_state_def)
  have c: "ifidx (example_addr\<lparr>ifidx := 7\<rparr>) = 7"
    "flags (example_addr\<lparr>ifidx := 7\<rparr>) AND IFA_F_DEPRECATED = 0"
    "ifidx deprecated_addr = 7"
    "flags deprecated_addr AND IFA_F_DEPRECATED \<noteq> 0"
    "neigh_ifidx (example_neigh\<lparr>neigh_ifidx := 7\<rparr>) = 7"
    "neigh_state (example_neigh\<lparr>neigh_ifidx := 7\<rparr>) AND NUD_PERMANENT \<noteq> 0"
    "neigh_addr (example_neigh\<lparr>neigh_ifidx := 7\<rparr>) \<noteq> None"
    "neigh_ifidx reachable_neigh = 7"
    "neigh_state reachable_neigh AND NUD_PERMANENT = 0"
    by (simp_all add: reachable_neigh_def example_defs)
  note T = addDefGw_unknown_index [OF a(1), of example_env "In4Addr 0xC0A80101"]
  note U = T [THEN conjunct1, rule_format, OF a(2)]
  have 1: "addDefGw example_env 7 (In4Addr 0xC0A80101) (Manager_init []) =
     Inr ((Manager_init [])\<lparr>journal := [NotFoundForGw 7]\<rparr>)"
    using U [THEN conjunct1] a(3) by simp
  have 2: "addAddress example_env (example_addr\<lparr>ifidx := 7\<rparr>) (Manager_init []) =
     Inl (RuntimeError ForAddr 7, Manager_init [])"
    using U [THEN conjunct2, THEN conjunct2, THEN conjunct1, rule_format, OF c(1)] c(2)
    by simp
  have 3: "addAddress example_env deprecated_addr (Manager_init []) = Inr (Manager_init [])"
    using U [THEN conjunct2, THEN conjunct2, THEN conjunct1, rule_format, OF c(3)] c(4)
    by simp
  have 4: "addNeighbor example_env (example_neigh\<lparr>neigh_ifidx := 7\<rparr>) (Manager_init []) =
     Inl (RuntimeError ForNeigh 7, Manager_init [])"
    using U [THEN conjunct2, THEN conjunct2, THEN conjunct2, rule_format, OF c(5)] c(6,7)
    by simp
  have 5: "addNeighbor example_env reachable_neigh (Manager_init []) = Inr (Manager_init [])"
    using U [THEN conjunct2, THEN conjunct2, THEN conjunct2, rule_format, OF c(8)] c(9)
    by simp
  have 6: "addDefGw example_env 2 (In4Addr 0xC0A80101) ignored_state = Inr ignored_state"
    using addDefGw_unknown_index [OF b(1), of example_env "In4Addr 0xC0A80101",
        THEN conjunct2, rule_format, OF b(2)] .
  from a(1,2) b 1 2 3 4 5 6 show ?thesis by blast
qed

end
